theory Spec2Isabelle
  imports Main
begin

section \<open>The realtime subscription hook (app/hooks/useRealtime.js)\<close>

text \<open>
  The hook keeps five pieces of React state (\<open>isConnected\<close>, \<open>connectionStatus\<close>,
  \<open>error\<close>, \<open>retryCount\<close>, \<open>lastHeartbeat\<close>) and five mutable refs (\<open>channelRef\<close>,
  \<open>heartbeatRef\<close>, \<open>retryTimeoutRef\<close>, \<open>appStateRef\<close>, \<open>isNetworkConnectedRef\<close>).
  The model is one record of these ten slots together with the part of the outside
  world the hook acts on: the channels it has created on the transport, the timers
  it has armed, the transport calls it has made and the caller's handlers it has
  invoked. Every function of the hook becomes a function from state to state.

  Conventions.
  \<^item> A thrown value is identified by its message (\<open>exn\<close>); a handler is a function
    returning \<open>None\<close> when it returns and \<open>Some e\<close> when it throws \<open>e\<close>.
  \<^item> A transport call that may reject (\<open>unsubscribe\<close>, \<open>subscribe\<close>) takes its outcome
    from a \<open>transport\<close> argument, so the \<open>catch\<close> blocks of the source are branches.
  \<^item> Timer identifiers are positive numbers handed out in order, as the JavaScript
    runtimes do; a ref holding an identifier is therefore truthy, and \<open>None\<close> is
    \<open>null\<close>.
  \<^item> A state setter (\<open>setIsConnected\<close>, \<open>setConnectionStatus\<close>, ...) writes its slot at
    once, and \<open>send\<close>, \<open>trackPresence\<close> and the \<open>NetInfo\<close> listener, which React
    re-creates whenever \<open>isConnected\<close> changes, read the current \<open>isConnected\<close>.
  \<^item> \<open>scheduleRetry\<close> reads \<open>retryCount\<close> through its closure. The value it sees is
    that of the render which created the closure, not the current one, so it is
    an argument (\<open>rc\<close>) of the model, carried by every input that can reach
    \<open>scheduleRetry\<close>. The invariants below hold for every value of it. What the
    mounted hook passes is fixed by the dependency list of \<open>connect\<close>, which does
    not name \<open>scheduleRetry\<close>: see \<open>first_render_rc\<close>.
  \<^item> \<open>retryAttempts\<close>, \<open>retryDelay\<close> and \<open>heartbeatInterval\<close> are whole, non-negative
    numbers (attempts, milliseconds) that a double holds exactly. The product
    \<open>retryDelay * Math.pow(2, retryCount)\<close> is the double the source computes: the
    exact product while it is below \<open>2 ^ 1024\<close>, and \<open>Infinity\<close> or \<open>NaN\<close> beyond.
  \<^item> Every call of \<open>supabase.channel\<close> yields a new channel; a channel is live from
    its \<open>subscribe\<close> until its \<open>unsubscribe\<close> has settled without raising.
  \<^item> \<open>console.error\<close>, the channel name, the presence key and \<open>getPresence\<close> are
    not observed by any statement below and are left out.
\<close>

subsection \<open>Configuration\<close>

type_synonym exn = string
type_synonym row = string

record payload =
  p_new :: row
  p_old :: row

text \<open>\<open>event\<close> is compared with strings and asked \<open>event.includes(...)\<close>, which is
  defined on strings (substring) and on arrays (membership).\<close>

datatype event_mask = EvString string | EvArray "string list"

record config =
  table :: string
  filter_cfg :: "(string \<times> string) list option"
  event :: event_mask
  schema :: string
  enabled :: bool
  onInsert :: "(row \<Rightarrow> payload \<Rightarrow> exn option) option"
  onUpdate :: "(row \<Rightarrow> row \<Rightarrow> payload \<Rightarrow> exn option) option"
  onDelete :: "(row \<Rightarrow> payload \<Rightarrow> exn option) option"
  onError :: "(exn \<Rightarrow> exn option) option"
  retryAttempts :: nat
  retryDelay :: nat
  heartbeatInterval :: nat

subsection \<open>State\<close>

datatype status =
  Disconnected | Connecting | Connected | Error | Timeout | Retrying
  | Max_retries_exceeded | Network_disconnected | Disconnecting

datatype app_state = Active | Background | Inactive

datatype kind = INSERT | UPDATE | DELETE

datatype binding =
  Postgres_changes kind string string "string option"
  | System
  | Broadcast string

datatype chan_state = Closed | Errored | Joined | Joining | Leaving

record channel =
  bindings :: "binding list"
  cstate :: chan_state
  subscribed :: bool
  unsubscribed :: bool

datatype timer_kind = Interval | Oneshot

text \<open>The delay handed to \<open>setTimeout\<close> or \<open>setInterval\<close>, a JavaScript number.\<close>

datatype delay = Finite nat | Infinity | NaN

record timer =
  tm_id :: nat
  tm_kind :: timer_kind
  tm_delay :: delay

datatype body = Body string | Timestamp nat

datatype call =
  New_channel nat
  | Subscribe nat
  | Unsubscribe nat
  | Send nat string body
  | Track nat string
  | Untrack nat

datatype hcall =
  Called_onInsert row payload
  | Called_onUpdate row row payload
  | Called_onDelete row payload
  | Called_onError exn

record state =
  isConnected :: bool
  connectionStatus :: status
  error :: "exn option"
  retryCount :: nat
  lastHeartbeat :: "nat option"
  channelRef :: "nat option"
  heartbeatRef :: "nat option"
  retryTimeoutRef :: "nat option"
  appStateRef :: app_state
  isNetworkConnectedRef :: bool
  channels :: "channel list"
  timers :: "timer list"
  next_timer :: nat
  calls :: "call list"
  handled :: "hcall list"

definition init :: "app_state \<Rightarrow> state" where
  "init a =
     \<lparr>isConnected = False, connectionStatus = Disconnected, error = None, retryCount = 0,
      lastHeartbeat = None, channelRef = None, heartbeatRef = None, retryTimeoutRef = None,
      appStateRef = a, isNetworkConnectedRef = True,
      channels = [], timers = [], next_timer = 1, calls = [], handled = []\<rparr>"

record transport =
  unsubscribe_throws :: "exn option"
  subscribe_throws :: "exn option"

subsection \<open>Timers\<close>

text \<open>\<open>setInterval\<close>/\<open>setTimeout\<close> add a timer under a fresh identifier;
  \<open>clearInterval\<close>/\<open>clearTimeout\<close> remove the timer with the given identifier (and do
  nothing when there is none).\<close>

definition setTimer :: "timer_kind \<Rightarrow> delay \<Rightarrow> state \<Rightarrow> nat \<times> state" where
  "setTimer k d st =
     (next_timer st,
      st\<lparr>timers := timers st @ [\<lparr>tm_id = next_timer st, tm_kind = k, tm_delay = d\<rparr>],
         next_timer := Suc (next_timer st)\<rparr>)"

definition clearTimer :: "nat \<Rightarrow> state \<Rightarrow> state" where
  "clearTimer i st = st\<lparr>timers := filter (\<lambda>t. tm_id t \<noteq> i) (timers st)\<rparr>"

definition active :: "timer_kind \<Rightarrow> nat \<Rightarrow> state \<Rightarrow> bool" where
  "active k i st = list_ex (\<lambda>t. tm_id t = i \<and> tm_kind t = k) (timers st)"

definition pending :: "timer_kind \<Rightarrow> state \<Rightarrow> timer list" where
  "pending k st = filter (\<lambda>t. tm_kind t = k) (timers st)"

subsection \<open>Channels\<close>

definition chan :: "state \<Rightarrow> nat \<Rightarrow> channel option" where
  "chan st c = (if c < length (channels st) then Some (channels st ! c) else None)"

definition upd_chan :: "nat \<Rightarrow> (channel \<Rightarrow> channel) \<Rightarrow> state \<Rightarrow> state" where
  "upd_chan c f st =
     (if c < length (channels st)
      then st\<lparr>channels := (channels st)[c := f (channels st ! c)]\<rparr> else st)"

definition live :: "channel \<Rightarrow> bool" where
  "live ch = (subscribed ch \<and> \<not> unsubscribed ch)"

definition live_handles :: "state \<Rightarrow> nat list" where
  "live_handles st = filter (\<lambda>c. live (channels st ! c)) [0 ..< length (channels st)]"

text \<open>\<open>channel.unsubscribe()\<close> settling: it either rejects, or the channel has left.\<close>

definition unsubscribe :: "transport \<Rightarrow> nat \<Rightarrow> state \<Rightarrow> exn \<times> state + state" where
  "unsubscribe tr c st =
     (let s = st\<lparr>calls := calls st @ [Unsubscribe c]\<rparr>
      in case unsubscribe_throws tr of
           Some e \<Rightarrow> Inl (e, s)
         | None \<Rightarrow> Inr (upd_chan c (\<lambda>ch. ch\<lparr>unsubscribed := True\<rparr>) s))"

subsection \<open>Event mask and routes\<close>

fun starts_with :: "string \<Rightarrow> string \<Rightarrow> bool" where
  "starts_with s [] = True"
| "starts_with [] (p # ps) = False"
| "starts_with (c # cs) (p # ps) = (c = p \<and> starts_with cs ps)"

fun str_includes :: "string \<Rightarrow> string \<Rightarrow> bool" where
  "str_includes [] p = (p = [])"
| "str_includes (c # cs) p = (starts_with (c # cs) p \<or> str_includes cs p)"

fun mask_includes :: "event_mask \<Rightarrow> string \<Rightarrow> bool" where
  "mask_includes (EvString s) p = str_includes s p"
| "mask_includes (EvArray xs) p = (p \<in> set xs)"

definition kind_name :: "kind \<Rightarrow> string" where
  "kind_name k = (case k of INSERT \<Rightarrow> ''INSERT'' | UPDATE \<Rightarrow> ''UPDATE'' | DELETE \<Rightarrow> ''DELETE'')"

text \<open>The guard in front of each \<open>channel.on('postgres_changes', ...)\<close>:
  \<open>event === '*' || event === 'INSERT' || event.includes('INSERT')\<close>.\<close>

definition wants :: "event_mask \<Rightarrow> kind \<Rightarrow> bool" where
  "wants ev k = (ev = EvString ''*'' \<or> ev = EvString (kind_name k) \<or> mask_includes ev (kind_name k))"

text \<open>\<open>filter ? `${Object.keys(filter)[0]}=eq.${Object.values(filter)[0]}` : undefined\<close>\<close>

definition pg_filter :: "config \<Rightarrow> string option" where
  "pg_filter cfg =
     (case filter_cfg cfg of
        None \<Rightarrow> None
      | Some [] \<Rightarrow> Some ''undefined=eq.undefined''
      | Some ((k, v) # _) \<Rightarrow> Some (k @ ''=eq.'' @ v))"

definition route :: "config \<Rightarrow> kind \<Rightarrow> binding list" where
  "route cfg k =
     (if wants (event cfg) k
      then [Postgres_changes k (schema cfg) (table cfg) (pg_filter cfg)] else [])"

definition listens :: "channel \<Rightarrow> kind \<Rightarrow> bool" where
  "listens ch k =
     list_ex (\<lambda>b. case b of Postgres_changes k' _ _ _ \<Rightarrow> k' = k | _ \<Rightarrow> False) (bindings ch)"

subsection \<open>Heartbeat\<close>

definition startHeartbeat :: "config \<Rightarrow> state \<Rightarrow> state" where
  "startHeartbeat cfg st =
     (let s1 = (case heartbeatRef st of Some h \<Rightarrow> clearTimer h st | None \<Rightarrow> st);
          (i, s2) = setTimer Interval (Finite (heartbeatInterval cfg)) s1
      in s2\<lparr>heartbeatRef := Some i\<rparr>)"

definition stopHeartbeat :: "state \<Rightarrow> state" where
  "stopHeartbeat st =
     (case heartbeatRef st of
        Some h \<Rightarrow> (clearTimer h st)\<lparr>heartbeatRef := None\<rparr>
      | None \<Rightarrow> st)"

text \<open>The callback of the interval, run at time \<open>now\<close>.\<close>

definition heartbeat_tick :: "nat \<Rightarrow> state \<Rightarrow> state" where
  "heartbeat_tick now st =
     (case channelRef st of
        None \<Rightarrow> st
      | Some c \<Rightarrow>
          (case chan st c of
             None \<Rightarrow> st
           | Some ch \<Rightarrow>
               if cstate ch = Joined
               then st\<lparr>calls := calls st @ [Send c ''heartbeat'' (Timestamp now)],
                       lastHeartbeat := Some now\<rparr>
               else st))"

subsection \<open>Retry\<close>

text \<open>\<open>d * Math.pow(2, n)\<close> for whole \<open>d\<close> and \<open>n\<close>. \<open>Math.pow(2, n)\<close> is exact up to
  \<open>n = 1023\<close> and \<open>Infinity\<close> from \<open>n = 1024\<close>; a product with a power of two keeps
  the significand of \<open>d\<close>, so it is exact until it overflows to \<open>Infinity\<close>; and
  \<open>0 * Infinity\<close> is \<open>NaN\<close>.\<close>

definition js_times_pow2 :: "nat \<Rightarrow> nat \<Rightarrow> delay" where
  "js_times_pow2 d n =
     (if 1024 \<le> n then (if d = 0 then NaN else Infinity)
      else if d * 2 ^ n < 2 ^ 1024 then Finite (d * 2 ^ n)
      else Infinity)"

definition scheduleRetry :: "config \<Rightarrow> nat \<Rightarrow> state \<Rightarrow> state" where
  "scheduleRetry cfg rc st =
     (if rc \<ge> retryAttempts cfg then st\<lparr>connectionStatus := Max_retries_exceeded\<rparr>
      else
        let s1 = (case retryTimeoutRef st of Some r \<Rightarrow> clearTimer r st | None \<Rightarrow> st);
            delay = js_times_pow2 (retryDelay cfg) rc;
            s2 = s1\<lparr>connectionStatus := Retrying\<rparr>;
            (i, s3) = setTimer Oneshot delay s2
        in s3\<lparr>retryTimeoutRef := Some i\<rparr>)"

text \<open>The retry count the mounted hook reads. \<open>connect\<close> is memoized on a dependency
  list that does not name \<open>scheduleRetry\<close> (l. 289), and \<open>scheduleRetry\<close> is memoized on
  \<open>connect\<close> (l. 333). The \<open>connect\<close> that the mount effect calls is that of the first
  render; the \<open>scheduleRetry\<close> it and the callbacks it registers on the channel refer
  to is that of the same render, whose \<open>retryCount\<close> is the initial value of
  \<open>useState(0)\<close>; and the \<open>connect\<close> which that \<open>scheduleRetry\<close> calls from its timeout
  is again that of the first render. The retry chain that starts at the mount
  therefore reads this value at every attempt, whatever \<open>setRetryCount\<close> has stored
  since.\<close>

definition first_render_rc :: nat where
  "first_render_rc = 0"

subsection \<open>Connection management\<close>

text \<open>
  \<open>connect\<close> and \<open>disconnect\<close> are \<open>async\<close>: each runs up to an \<open>await\<close>, returns to
  its caller and is resumed later. A call is therefore made in one of two modes:
  \<open>Completes\<close> runs the function to its end before anything else happens;
  \<open>Suspends\<close> runs it up to its first \<open>await\<close>, and the rest is run by the inputs
  \<open>Connect_unsubscribed\<close>, \<open>Connect_subscribed\<close> and \<open>Disconnect_unsubscribed\<close> below.
\<close>

datatype mode = Completes | Suspends

text \<open>The \<open>catch\<close> block of \<open>connect\<close>.\<close>

definition connect_catch :: "config \<Rightarrow> nat \<Rightarrow> exn \<Rightarrow> state \<Rightarrow> state" where
  "connect_catch cfg rc e st =
     scheduleRetry cfg rc
       (stopHeartbeat (st\<lparr>error := Some e, connectionStatus := Error, isConnected := False\<rparr>))"

text \<open>\<open>supabase.channel(...)\<close>, the \<open>channel.on\<close> registrations and
  \<open>channel.subscribe(...)\<close>: the new channel is returned for the assignment to
  \<open>channelRef.current\<close> that follows the \<open>await\<close>.\<close>

definition connect_open :: "config \<Rightarrow> transport \<Rightarrow> state \<Rightarrow> exn \<times> state + nat \<times> state" where
  "connect_open cfg tr st =
     (let c = length (channels st);
          ch = \<lparr>bindings = route cfg INSERT @ route cfg UPDATE @ route cfg DELETE
                   @ [System, Broadcast ''heartbeat''],
                cstate = Closed, subscribed = False, unsubscribed = False\<rparr>;
          s = st\<lparr>channels := channels st @ [ch],
                 calls := calls st @ [New_channel c, Subscribe c]\<rparr>
      in case subscribe_throws tr of
           Some e \<Rightarrow> Inl (e, s)
         | None \<Rightarrow> Inr (c, upd_chan c (\<lambda>ch. ch\<lparr>subscribed := True\<rparr>) s))"

definition connect_assign :: "nat \<Rightarrow> state \<Rightarrow> state" where
  "connect_assign c st = st\<lparr>channelRef := Some c\<rparr>"

definition connect_until_subscribe :: "config \<Rightarrow> nat \<Rightarrow> transport \<Rightarrow> state \<Rightarrow> state" where
  "connect_until_subscribe cfg rc tr st =
     (case connect_open cfg tr st of
        Inl (e, s) \<Rightarrow> connect_catch cfg rc e s
      | Inr (c, s) \<Rightarrow> s)"

definition connect_opening :: "config \<Rightarrow> nat \<Rightarrow> transport \<Rightarrow> state \<Rightarrow> state" where
  "connect_opening cfg rc tr st =
     (case connect_open cfg tr st of
        Inl (e, s) \<Rightarrow> connect_catch cfg rc e s
      | Inr (c, s) \<Rightarrow> connect_assign c s)"

definition connect_unsubscribed :: "config \<Rightarrow> mode \<Rightarrow> nat \<Rightarrow> transport \<Rightarrow> nat \<Rightarrow> state \<Rightarrow> state" where
  "connect_unsubscribed cfg m rc tr c st =
     (case unsubscribe tr c st of
        Inl (e, s) \<Rightarrow> connect_catch cfg rc e s
      | Inr s \<Rightarrow>
          (case m of
             Completes \<Rightarrow> connect_opening cfg rc tr (s\<lparr>channelRef := None\<rparr>)
           | Suspends \<Rightarrow> connect_until_subscribe cfg rc tr (s\<lparr>channelRef := None\<rparr>)))"

definition connect :: "config \<Rightarrow> nat \<Rightarrow> transport \<Rightarrow> state \<Rightarrow> state" where
  "connect cfg rc tr st =
     (if \<not> enabled cfg \<or> table cfg = [] \<or> \<not> isNetworkConnectedRef st then st
      else
        let s = st\<lparr>connectionStatus := Connecting, error := None\<rparr>
        in case channelRef s of
             Some c \<Rightarrow> connect_unsubscribed cfg Completes rc tr c s
           | None \<Rightarrow> connect_opening cfg rc tr s)"

text \<open>\<open>connect()\<close> up to its first \<open>await\<close>: at \<open>unsubscribe()\<close> when a channel is
  held, at \<open>subscribe(...)\<close> otherwise.\<close>

definition connect_enter :: "config \<Rightarrow> nat \<Rightarrow> transport \<Rightarrow> state \<Rightarrow> state" where
  "connect_enter cfg rc tr st =
     (if \<not> enabled cfg \<or> table cfg = [] \<or> \<not> isNetworkConnectedRef st then st
      else
        let s = st\<lparr>connectionStatus := Connecting, error := None\<rparr>
        in case channelRef s of
             Some c \<Rightarrow> s
           | None \<Rightarrow> connect_until_subscribe cfg rc tr s)"

definition connect_call :: "mode \<Rightarrow> config \<Rightarrow> nat \<Rightarrow> transport \<Rightarrow> state \<Rightarrow> state" where
  "connect_call m cfg rc tr st =
     (case m of Completes \<Rightarrow> connect cfg rc tr st | Suspends \<Rightarrow> connect_enter cfg rc tr st)"

definition disconnect_enter :: "state \<Rightarrow> state" where
  "disconnect_enter st =
     (let s = stopHeartbeat (st\<lparr>connectionStatus := Disconnecting\<rparr>)
      in case retryTimeoutRef s of
           Some r \<Rightarrow> (clearTimer r s)\<lparr>retryTimeoutRef := None\<rparr>
         | None \<Rightarrow> s)"

definition disconnect_done :: "state \<Rightarrow> state" where
  "disconnect_done st =
     st\<lparr>isConnected := False, connectionStatus := Disconnected, error := None, retryCount := 0\<rparr>"

definition disconnect_unsubscribed :: "transport \<Rightarrow> nat \<Rightarrow> state \<Rightarrow> state" where
  "disconnect_unsubscribed tr c st =
     (case unsubscribe tr c st of
        Inl (e, s) \<Rightarrow> s\<lparr>error := Some e\<rparr>
      | Inr s \<Rightarrow> disconnect_done (s\<lparr>channelRef := None\<rparr>))"

definition disconnect :: "transport \<Rightarrow> state \<Rightarrow> state" where
  "disconnect tr st =
     (let s = disconnect_enter st
      in case channelRef s of
           Some c \<Rightarrow> disconnect_unsubscribed tr c s
         | None \<Rightarrow> disconnect_done s)"

definition disconnect_call :: "mode \<Rightarrow> transport \<Rightarrow> state \<Rightarrow> state" where
  "disconnect_call m tr st =
     (case m of
        Completes \<Rightarrow> disconnect tr st
      | Suspends \<Rightarrow>
          (let s = disconnect_enter st
           in case channelRef s of Some c \<Rightarrow> s | None \<Rightarrow> disconnect_done s))"

text \<open>\<open>setRetryCount(0); disconnect().then(() => { if (enabled && online) connect() })\<close>.
  Suspended, the call stops inside \<open>disconnect()\<close>; the callback of \<open>then\<close> is a later
  call of \<open>connect\<close>.\<close>

definition reconnect :: "config \<Rightarrow> mode \<Rightarrow> nat \<Rightarrow> transport \<Rightarrow> transport \<Rightarrow> state \<Rightarrow> state" where
  "reconnect cfg m rc tr tr' st =
     (case m of
        Completes \<Rightarrow>
          (let s = disconnect tr (st\<lparr>retryCount := 0\<rparr>)
           in if enabled cfg \<and> isNetworkConnectedRef s then connect cfg rc tr' s else s)
      | Suspends \<Rightarrow> disconnect_call Suspends tr (st\<lparr>retryCount := 0\<rparr>))"

subsection \<open>Callbacks of the channel\<close>

datatype sub_status = SUBSCRIBED | CHANNEL_ERROR | TIMED_OUT | CLOSED

text \<open>The callback given to \<open>channel.subscribe\<close>.\<close>

definition on_subscribe_status :: "config \<Rightarrow> nat \<Rightarrow> sub_status \<Rightarrow> exn option \<Rightarrow> state \<Rightarrow> state" where
  "on_subscribe_status cfg rc s err st =
     (case s of
        SUBSCRIBED \<Rightarrow>
          startHeartbeat cfg
            (st\<lparr>isConnected := True, connectionStatus := Connected, retryCount := 0\<rparr>)
      | CHANNEL_ERROR \<Rightarrow>
          scheduleRetry cfg rc
            (stopHeartbeat
               (st\<lparr>isConnected := False, connectionStatus := Error,
                   error := Some (case err of Some e \<Rightarrow> e
                                  | None \<Rightarrow> ''Channel subscription error'')\<rparr>))
      | TIMED_OUT \<Rightarrow>
          scheduleRetry cfg rc
            (stopHeartbeat
               (st\<lparr>isConnected := False, connectionStatus := Timeout,
                   error := Some ''Connection timeout''\<rparr>))
      | CLOSED \<Rightarrow>
          stopHeartbeat (st\<lparr>isConnected := False, connectionStatus := Disconnected\<rparr>))"

text \<open>The callback registered on \<open>'system'\<close>; \<open>payload.message || 'Connection error'\<close>
  takes the default for an absent or empty message.\<close>

definition on_system :: "config \<Rightarrow> nat \<Rightarrow> string \<Rightarrow> string option \<Rightarrow> state \<Rightarrow> state" where
  "on_system cfg rc s msg st =
     (if s = ''ok'' then
        startHeartbeat cfg
          (st\<lparr>isConnected := True, connectionStatus := Connected, retryCount := 0\<rparr>)
      else if s = ''error'' then
        scheduleRetry cfg rc
          (stopHeartbeat
             (st\<lparr>isConnected := False, connectionStatus := Error,
                 error := Some (case msg of
                                  None \<Rightarrow> ''Connection error''
                                | Some m \<Rightarrow> if m = [] then ''Connection error'' else m)\<rparr>))
      else st)"

text \<open>The body shared by the three \<open>postgres_changes\<close> callbacks:
  \<open>try { handler?.(...) } catch (err) { onError?.(err) }\<close>. The first component of
  the result is the exception that leaves the callback, if any: only \<open>onError\<close>
  itself can raise one.\<close>

definition guarded :: "config \<Rightarrow> hcall \<Rightarrow> exn option option \<Rightarrow> state \<Rightarrow> exn option \<times> state" where
  "guarded cfg lbl res st =
     (case res of
        None \<Rightarrow> (None, st)
      | Some None \<Rightarrow> (None, st\<lparr>handled := handled st @ [lbl]\<rparr>)
      | Some (Some e) \<Rightarrow>
          (case onError cfg of
             None \<Rightarrow> (None, st\<lparr>handled := handled st @ [lbl]\<rparr>)
           | Some g \<Rightarrow> (g e, st\<lparr>handled := handled st @ [lbl, Called_onError e]\<rparr>)))"

text \<open>What each callback calls, \<open>onInsert?.(payload.new, payload)\<close>,
  \<open>onUpdate?.(payload.new, payload.old, payload)\<close> or
  \<open>onDelete?.(payload.old, payload)\<close>: \<open>None\<close> when the handler is absent, else
  what the handler does.\<close>

definition invoke :: "config \<Rightarrow> kind \<Rightarrow> payload \<Rightarrow> exn option option" where
  "invoke cfg k p =
     (case k of
        INSERT \<Rightarrow> map_option (\<lambda>h. h (p_new p) p) (onInsert cfg)
      | UPDATE \<Rightarrow> map_option (\<lambda>h. h (p_new p) (p_old p) p) (onUpdate cfg)
      | DELETE \<Rightarrow> map_option (\<lambda>h. h (p_old p) p) (onDelete cfg))"

definition label :: "kind \<Rightarrow> payload \<Rightarrow> hcall" where
  "label k p =
     (case k of
        INSERT \<Rightarrow> Called_onInsert (p_new p) p
      | UPDATE \<Rightarrow> Called_onUpdate (p_new p) (p_old p) p
      | DELETE \<Rightarrow> Called_onDelete (p_old p) p)"

definition route_callback :: "config \<Rightarrow> kind \<Rightarrow> payload \<Rightarrow> state \<Rightarrow> exn option \<times> state" where
  "route_callback cfg k p st = guarded cfg (label k p) (invoke cfg k p) st"

text \<open>The transport delivering a change of kind \<open>k\<close> on channel \<open>c\<close>: it runs the
  callback registered for that kind, and there is nothing to run when none is.\<close>

definition inbound :: "config \<Rightarrow> nat \<Rightarrow> kind \<Rightarrow> payload \<Rightarrow> state \<Rightarrow> exn option \<times> state" where
  "inbound cfg c k p st =
     (case chan st c of
        None \<Rightarrow> (None, st)
      | Some ch \<Rightarrow> if listens ch k then route_callback cfg k p st else (None, st))"

subsection \<open>Listeners, timers and effects\<close>

text \<open>The \<open>NetInfo\<close> listener.\<close>

definition on_netinfo :: "config \<Rightarrow> mode \<Rightarrow> nat \<Rightarrow> transport \<Rightarrow> bool \<Rightarrow> state \<Rightarrow> state" where
  "on_netinfo cfg m rc tr online st =
     (let s = st\<lparr>isNetworkConnectedRef := online\<rparr>
      in if \<not> online \<and> isConnected s
         then s\<lparr>connectionStatus := Network_disconnected, isConnected := False\<rparr>
         else if online \<and> \<not> isConnected s \<and> enabled cfg then connect_call m cfg rc tr s
         else s)"

definition in_background :: "app_state \<Rightarrow> bool" where
  "in_background a = (a = Inactive \<or> a = Background)"

definition handleAppStateChange ::
  "config \<Rightarrow> mode \<Rightarrow> nat \<Rightarrow> transport \<Rightarrow> app_state \<Rightarrow> state \<Rightarrow> state" where
  "handleAppStateChange cfg m rc tr nextAppState st =
     (let s =
        (if in_background (appStateRef st) \<and> nextAppState = Active
         then (if enabled cfg \<and> isNetworkConnectedRef st then connect_call m cfg rc tr st
               else st)
         else if in_background nextAppState then disconnect_call m tr st
         else st)
      in s\<lparr>appStateRef := nextAppState\<rparr>)"

text \<open>The callback of the retry timeout:
  \<open>setRetryCount(prev => prev + 1); connect()\<close>.\<close>

definition retry_callback :: "config \<Rightarrow> mode \<Rightarrow> nat \<Rightarrow> transport \<Rightarrow> state \<Rightarrow> state" where
  "retry_callback cfg m rc tr st =
     connect_call m cfg rc tr (st\<lparr>retryCount := retryCount st + 1\<rparr>)"

text \<open>Unmounting runs the cleanup of the initial-connection effect (\<open>disconnect()\<close>)
  and then the timer cleanup, which clears the retry timeout without resetting its
  ref.\<close>

definition unmount :: "mode \<Rightarrow> transport \<Rightarrow> state \<Rightarrow> state" where
  "unmount m tr st =
     (let s = disconnect_call m tr st
      in stopHeartbeat (case retryTimeoutRef s of Some r \<Rightarrow> clearTimer r s | None \<Rightarrow> s))"

subsection \<open>Public API\<close>

text \<open>A call returns the exception thrown to the caller, if any, and the state it
  leaves.\<close>

definition send :: "string \<Rightarrow> string \<Rightarrow> state \<Rightarrow> exn option \<times> state" where
  "send eventName p st =
     (case channelRef st of
        None \<Rightarrow> (Some ''Not connected to realtime channel'', st)
      | Some c \<Rightarrow>
          if \<not> isConnected st then (Some ''Not connected to realtime channel'', st)
          else (None, st\<lparr>calls := calls st @ [Send c eventName (Body p)]\<rparr>))"

definition trackPresence :: "string \<Rightarrow> state \<Rightarrow> exn option \<times> state" where
  "trackPresence presence st =
     (case channelRef st of
        None \<Rightarrow> (Some ''Not connected to realtime channel'', st)
      | Some c \<Rightarrow>
          if \<not> isConnected st then (Some ''Not connected to realtime channel'', st)
          else (None, st\<lparr>calls := calls st @ [Track c presence]\<rparr>))"

definition untrackPresence :: "state \<Rightarrow> exn option \<times> state" where
  "untrackPresence st =
     (case channelRef st of
        None \<Rightarrow> (None, st)
      | Some c \<Rightarrow> (None, st\<lparr>calls := calls st @ [Untrack c]\<rparr>))"

subsection \<open>The hook as a transition system\<close>

text \<open>
  Everything that can happen to a mounted hook is an input; mounting itself is a
  call of \<open>connect\<close>, whose guard repeats the test of the effect. The calls that reach
  \<open>connect\<close> or \<open>disconnect\<close> carry the mode of that call, the value of \<open>retryCount\<close>
  their closure holds and the outcomes of the transport calls they make. The
  resumption inputs may name any channel that exists, and the transport may move a
  channel to any state at any time: the set of reachable states is at least that of
  the running hook.
\<close>

datatype input =
  Call_connect mode nat transport
  | Call_disconnect mode transport
  | Call_reconnect mode nat transport transport
  | Call_send string string
  | Call_trackPresence string
  | Call_untrackPresence
  | Net_info bool mode nat transport
  | App_state_change app_state mode nat transport
  | Subscribe_status sub_status "exn option" nat
  | System_message string "string option" nat
  | Inbound nat kind payload
  | Transport_state nat chan_state
  | Heartbeat_fires nat nat
  | Retry_fires nat mode nat transport
  | Unmount mode transport
  | Connect_unsubscribed nat mode nat transport
  | Connect_subscribed nat
  | Disconnect_unsubscribed nat transport

fun step :: "config \<Rightarrow> input \<Rightarrow> state \<Rightarrow> state" where
  "step cfg (Call_connect m rc tr) st = connect_call m cfg rc tr st"
| "step cfg (Call_disconnect m tr) st = disconnect_call m tr st"
| "step cfg (Call_reconnect m rc tr tr') st = reconnect cfg m rc tr tr' st"
| "step cfg (Call_send n p) st = snd (send n p st)"
| "step cfg (Call_trackPresence p) st = snd (trackPresence p st)"
| "step cfg Call_untrackPresence st = snd (untrackPresence st)"
| "step cfg (Net_info online m rc tr) st = on_netinfo cfg m rc tr online st"
| "step cfg (App_state_change a m rc tr) st = handleAppStateChange cfg m rc tr a st"
| "step cfg (Subscribe_status s err rc) st = on_subscribe_status cfg rc s err st"
| "step cfg (System_message s msg rc) st = on_system cfg rc s msg st"
| "step cfg (Inbound c k p) st = snd (inbound cfg c k p st)"
| "step cfg (Transport_state c cs) st = upd_chan c (\<lambda>ch. ch\<lparr>cstate := cs\<rparr>) st"
| "step cfg (Heartbeat_fires i now) st =
     (if active Interval i st then heartbeat_tick now st else st)"
| "step cfg (Retry_fires i m rc tr) st =
     (if active Oneshot i st then retry_callback cfg m rc tr (clearTimer i st) else st)"
| "step cfg (Unmount m tr) st = unmount m tr st"
| "step cfg (Connect_unsubscribed c m rc tr) st =
     (if c < length (channels st) then connect_unsubscribed cfg m rc tr c st else st)"
| "step cfg (Connect_subscribed c) st =
     (if c < length (channels st) then connect_assign c st else st)"
| "step cfg (Disconnect_unsubscribed c tr) st =
     (if c < length (channels st) then disconnect_unsubscribed tr c st else st)"

definition run :: "config \<Rightarrow> input list \<Rightarrow> state \<Rightarrow> state" where
  "run cfg ins st = foldl (\<lambda>s i. step cfg i s) st ins"

inductive reachable :: "config \<Rightarrow> state \<Rightarrow> bool" for cfg :: config where
  reachable_init: "reachable cfg (init a)"
| reachable_step: "reachable cfg st \<Longrightarrow> reachable cfg (step cfg i st)"

text \<open>An input is atomic when the call it makes runs to completion: no call is
  left suspended, so none is resumed.\<close>

fun atomic :: "input \<Rightarrow> bool" where
  "atomic (Call_connect m rc tr) = (m = Completes)"
| "atomic (Call_disconnect m tr) = (m = Completes)"
| "atomic (Call_reconnect m rc tr tr') = (m = Completes)"
| "atomic (Net_info online m rc tr) = (m = Completes)"
| "atomic (App_state_change a m rc tr) = (m = Completes)"
| "atomic (Retry_fires i m rc tr) = (m = Completes)"
| "atomic (Unmount m tr) = (m = Completes)"
| "atomic (Connect_unsubscribed c m rc tr) = False"
| "atomic (Connect_subscribed c) = False"
| "atomic (Disconnect_unsubscribed c tr) = False"
| "atomic i = True"

text \<open>The calls a heartbeat tick makes, and the inputs on which the heartbeat is
  started: the channel reports \<open>SUBSCRIBED\<close>, or a system message \<open>ok\<close> arrives.\<close>

fun is_beat :: "call \<Rightarrow> bool" where
  "is_beat (Send c n (Timestamp t)) = True"
| "is_beat x = False"

definition heartbeats :: "state \<Rightarrow> call list" where
  "heartbeats st = filter is_beat (calls st)"

fun starts_heartbeat :: "input \<Rightarrow> bool" where
  "starts_heartbeat (Subscribe_status s err rc) = (s = SUBSCRIBED)"
| "starts_heartbeat (System_message s msg rc) = (s = ''ok'')"
| "starts_heartbeat i = False"

inductive reachable_seq :: "config \<Rightarrow> state \<Rightarrow> bool" for cfg :: config where
  reachable_seq_init: "reachable_seq cfg (init a)"
| reachable_seq_step: "reachable_seq cfg st \<Longrightarrow> atomic i \<Longrightarrow> reachable_seq cfg (step cfg i st)"

subsection \<open>Invariants\<close>

text \<open>Every pending timer is the one its ref names: the interval is in
  \<open>heartbeatRef\<close>, the timeout in \<open>retryTimeoutRef\<close>.\<close>

definition timers_ok :: "state \<Rightarrow> bool" where
  "timers_ok st =
     (distinct (map tm_id (timers st)) \<and>
      (\<forall>t \<in> set (timers st).
         tm_id t < next_timer st \<and>
         (tm_kind t = Interval \<longrightarrow> heartbeatRef st = Some (tm_id t)) \<and>
         (tm_kind t = Oneshot \<longrightarrow> retryTimeoutRef st = Some (tm_id t))))"

definition ref_ok :: "state \<Rightarrow> bool" where
  "ref_ok st = (\<forall>c. channelRef st = Some c \<longrightarrow> c < length (channels st))"

definition conn_ok :: "state \<Rightarrow> bool" where
  "conn_ok st =
     (isConnected st \<longrightarrow> connectionStatus st \<in> {Connected, Connecting, Disconnecting})"

definition routes_ok :: "config \<Rightarrow> state \<Rightarrow> bool" where
  "routes_ok cfg st =
     (\<forall>c k. c < length (channels st) \<longrightarrow> listens (channels st ! c) k \<longrightarrow> wants (event cfg) k)"

definition chan_inv :: "config \<Rightarrow> state \<Rightarrow> bool" where
  "chan_inv cfg st = (ref_ok st \<and> conn_ok st \<and> routes_ok cfg st)"

text \<open>A live channel is the one \<open>channelRef\<close> holds.\<close>

definition lone_ok :: "state \<Rightarrow> bool" where
  "lone_ok st =
     (\<forall>c. c < length (channels st) \<longrightarrow> live (channels st ! c) \<longrightarrow> channelRef st = Some c)"

definition none_live :: "state \<Rightarrow> bool" where
  "none_live st = (\<forall>c. c < length (channels st) \<longrightarrow> \<not> live (channels st ! c))"

text \<open>The invariant of the runs in which no call is suspended.\<close>

definition seq_inv :: "state \<Rightarrow> bool" where
  "seq_inv st = (lone_ok st \<and> ref_ok st)"

text \<open>No heartbeat interval is pending, and the heartbeats sent so far are \<open>b\<close>.\<close>

definition quiet :: "call list \<Rightarrow> state \<Rightarrow> bool" where
  "quiet b st = (pending Interval st = [] \<and> heartbeats st = b)"

subsection \<open>Sample configurations and runs\<close>

definition ok :: transport where
  "ok = \<lparr>unsubscribe_throws = None, subscribe_throws = None\<rparr>"

definition leave_fails :: transport where
  "leave_fails = \<lparr>unsubscribe_throws = Some ''leave failed'', subscribe_throws = None\<rparr>"

text \<open>The defaults of the hook (\<open>event = '*'\<close>, \<open>schema = 'public'\<close>, three retries
  from one second, a heartbeat every thirty seconds) on a table \<open>leads\<close>, with an
  \<open>onUpdate\<close> handler that throws.\<close>

definition demo_cfg :: config where
  "demo_cfg =
     \<lparr>table = ''leads'', filter_cfg = None, event = EvString ''*'', schema = ''public'',
      enabled = True,
      onInsert = Some (\<lambda>r p. None),
      onUpdate = Some (\<lambda>r r' p. Some ''boom''),
      onDelete = None,
      onError = Some (\<lambda>e. None),
      retryAttempts = 3, retryDelay = 1000, heartbeatInterval = 30000\<rparr>"

definition disabled_cfg :: config where
  "disabled_cfg = demo_cfg\<lparr>enabled := False\<rparr>"

definition insert_only_cfg :: config where
  "insert_only_cfg = demo_cfg\<lparr>event := EvString ''INSERT''\<rparr>"

text \<open>Connected on channel 0, which the transport has joined; the heartbeat runs.\<close>

definition connected_run :: "input list" where
  "connected_run =
     [Call_connect Completes 0 ok, Transport_state 0 Joined, Subscribe_status SUBSCRIBED None 0]"

text \<open>The channel reported an error after the connect: a retry is pending.\<close>

definition retrying_run :: "input list" where
  "retrying_run = [Call_connect Completes 0 ok, Subscribe_status CHANNEL_ERROR None 0]"

text \<open>A retry and a heartbeat are pending, and a second \<open>connect()\<close> waits for the
  held channel to unsubscribe.\<close>

definition busy_run :: "input list" where
  "busy_run =
     [Call_connect Completes 0 ok, Subscribe_status CHANNEL_ERROR None 0,
      Subscribe_status SUBSCRIBED None 0, Call_connect Suspends 0 ok]"

text \<open>Two calls of \<open>connect()\<close> in a row, each suspended at its \<open>subscribe\<close>, then
  both resumed.\<close>

definition overlapping_run :: "input list" where
  "overlapping_run =
     [Call_connect Suspends 0 ok, Call_connect Suspends 0 ok,
      Connect_subscribed 0, Connect_subscribed 1]"

text \<open>A second \<open>connect()\<close> on the connected hook, run to completion.\<close>

definition reconnecting_run :: "input list" where
  "reconnecting_run = connected_run @ [Call_connect Completes 0 ok]"

text \<open>The connected hook after its first heartbeat.\<close>

definition beating_run :: "input list" where
  "beating_run = connected_run @ [Heartbeat_fires 1 30000]"

text \<open>The connected hook is told that the network is gone.\<close>

definition offline_run :: "input list" where
  "offline_run = connected_run @ [Net_info False Completes 0 ok]"

text \<open>The first \<open>connect()\<close>, suspended at its \<open>subscribe\<close>.\<close>

definition opening_run :: "input list" where
  "opening_run = [Call_connect Suspends 0 ok]"

text \<open>The hook is mounted, and the channel of the first \<open>connect()\<close> reports an
  error.\<close>

definition mount_error :: "input list" where
  "mount_error =
     [Call_connect Completes first_render_rc ok,
      Subscribe_status CHANNEL_ERROR None first_render_rc]"

text \<open>The retry timeout \<open>i\<close> fires, its \<open>connect()\<close> runs to completion, and the new
  channel reports an error in its turn.\<close>

definition error_round :: "nat \<Rightarrow> input list" where
  "error_round i =
     [Retry_fires i Completes first_render_rc ok,
      Subscribe_status CHANNEL_ERROR None first_render_rc]"

definition no_table_cfg :: config where
  "no_table_cfg = demo_cfg\<lparr>table := ''''\<rparr>"

definition sample_change :: payload where
  "sample_change = \<lparr>p_new = ''new row'', p_old = ''old row''\<rparr>"

section \<open>Invariants of the reachable states\<close>

subsection \<open>Timers\<close>

lemma timers_ok_frame [simp]:
  "timers_ok (isConnected_update f1 st) = timers_ok st"
  "timers_ok (connectionStatus_update f2 st) = timers_ok st"
  "timers_ok (error_update f3 st) = timers_ok st"
  "timers_ok (retryCount_update f4 st) = timers_ok st"
  "timers_ok (lastHeartbeat_update f5 st) = timers_ok st"
  "timers_ok (channelRef_update f6 st) = timers_ok st"
  "timers_ok (appStateRef_update f7 st) = timers_ok st"
  "timers_ok (isNetworkConnectedRef_update f8 st) = timers_ok st"
  "timers_ok (channels_update f9 st) = timers_ok st"
  "timers_ok (calls_update f10 st) = timers_ok st"
  "timers_ok (handled_update f11 st) = timers_ok st"
  by (simp_all add: timers_ok_def)

lemma distinct_map_filter': "distinct (map f xs) \<Longrightarrow> distinct (map f (filter P xs))"
  by (induction xs) auto

lemma timers_ok_clearTimer: "timers_ok st \<Longrightarrow> timers_ok (clearTimer i st)"
  by (auto simp: timers_ok_def clearTimer_def distinct_map_filter')

lemma timers_ok_clearRetry:
  "timers_ok st \<Longrightarrow> retryTimeoutRef st = Some r \<Longrightarrow> timers_ok ((clearTimer r st)\<lparr>retryTimeoutRef := None\<rparr>)"
  by (auto simp: timers_ok_def clearTimer_def distinct_map_filter')

lemma timers_ok_startHeartbeat: "timers_ok st \<Longrightarrow> timers_ok (startHeartbeat cfg st)"
  by (auto simp: timers_ok_def startHeartbeat_def clearTimer_def setTimer_def distinct_map_filter'
      split: option.splits timer_kind.splits)

lemma timers_ok_stopHeartbeat: "timers_ok st \<Longrightarrow> timers_ok (stopHeartbeat st)"
  by (auto simp: timers_ok_def stopHeartbeat_def clearTimer_def distinct_map_filter'
      split: option.splits timer_kind.splits)

lemma timers_ok_scheduleRetry: "timers_ok st \<Longrightarrow> timers_ok (scheduleRetry cfg rc st)"
  by (auto simp: timers_ok_def scheduleRetry_def clearTimer_def setTimer_def Let_def distinct_map_filter'
      split: option.splits timer_kind.splits)

lemma timers_ok_upd_chan [simp]: "timers_ok (upd_chan c f st) = timers_ok st"
  by (simp add: upd_chan_def)

lemma clearTimer_fields [simp]:
  "isConnected (clearTimer i st) = isConnected st"
  "connectionStatus (clearTimer i st) = connectionStatus st"
  "error (clearTimer i st) = error st"
  "retryCount (clearTimer i st) = retryCount st"
  "lastHeartbeat (clearTimer i st) = lastHeartbeat st"
  "channelRef (clearTimer i st) = channelRef st"
  "heartbeatRef (clearTimer i st) = heartbeatRef st"
  "retryTimeoutRef (clearTimer i st) = retryTimeoutRef st"
  "appStateRef (clearTimer i st) = appStateRef st"
  "isNetworkConnectedRef (clearTimer i st) = isNetworkConnectedRef st"
  "channels (clearTimer i st) = channels st"
  "next_timer (clearTimer i st) = next_timer st"
  "calls (clearTimer i st) = calls st"
  "handled (clearTimer i st) = handled st"
  by (simp_all add: clearTimer_def)

lemma startHeartbeat_fields [simp]:
  "isConnected (startHeartbeat cfg st) = isConnected st"
  "connectionStatus (startHeartbeat cfg st) = connectionStatus st"
  "error (startHeartbeat cfg st) = error st"
  "retryCount (startHeartbeat cfg st) = retryCount st"
  "lastHeartbeat (startHeartbeat cfg st) = lastHeartbeat st"
  "channelRef (startHeartbeat cfg st) = channelRef st"
  "retryTimeoutRef (startHeartbeat cfg st) = retryTimeoutRef st"
  "appStateRef (startHeartbeat cfg st) = appStateRef st"
  "isNetworkConnectedRef (startHeartbeat cfg st) = isNetworkConnectedRef st"
  "channels (startHeartbeat cfg st) = channels st"
  "calls (startHeartbeat cfg st) = calls st"
  "handled (startHeartbeat cfg st) = handled st"
  by (simp_all add: startHeartbeat_def setTimer_def Let_def split: option.splits)

lemma stopHeartbeat_fields [simp]:
  "isConnected (stopHeartbeat st) = isConnected st"
  "connectionStatus (stopHeartbeat st) = connectionStatus st"
  "error (stopHeartbeat st) = error st"
  "retryCount (stopHeartbeat st) = retryCount st"
  "lastHeartbeat (stopHeartbeat st) = lastHeartbeat st"
  "channelRef (stopHeartbeat st) = channelRef st"
  "heartbeatRef (stopHeartbeat st) = None"
  "retryTimeoutRef (stopHeartbeat st) = retryTimeoutRef st"
  "appStateRef (stopHeartbeat st) = appStateRef st"
  "isNetworkConnectedRef (stopHeartbeat st) = isNetworkConnectedRef st"
  "channels (stopHeartbeat st) = channels st"
  "next_timer (stopHeartbeat st) = next_timer st"
  "calls (stopHeartbeat st) = calls st"
  "handled (stopHeartbeat st) = handled st"
  by (simp_all add: stopHeartbeat_def split: option.splits)

lemma scheduleRetry_fields [simp]:
  "isConnected (scheduleRetry cfg rc st) = isConnected st"
  "error (scheduleRetry cfg rc st) = error st"
  "retryCount (scheduleRetry cfg rc st) = retryCount st"
  "lastHeartbeat (scheduleRetry cfg rc st) = lastHeartbeat st"
  "channelRef (scheduleRetry cfg rc st) = channelRef st"
  "heartbeatRef (scheduleRetry cfg rc st) = heartbeatRef st"
  "appStateRef (scheduleRetry cfg rc st) = appStateRef st"
  "isNetworkConnectedRef (scheduleRetry cfg rc st) = isNetworkConnectedRef st"
  "channels (scheduleRetry cfg rc st) = channels st"
  "calls (scheduleRetry cfg rc st) = calls st"
  "handled (scheduleRetry cfg rc st) = handled st"
  by (simp_all add: scheduleRetry_def setTimer_def Let_def split: option.splits)

lemma scheduleRetry_status:
  "connectionStatus (scheduleRetry cfg rc st) =
     (if rc \<ge> retryAttempts cfg then Max_retries_exceeded else Retrying)"
  by (simp add: scheduleRetry_def setTimer_def Let_def split: option.splits)

lemma upd_chan_fields [simp]:
  "isConnected (upd_chan c f st) = isConnected st"
  "connectionStatus (upd_chan c f st) = connectionStatus st"
  "error (upd_chan c f st) = error st"
  "retryCount (upd_chan c f st) = retryCount st"
  "lastHeartbeat (upd_chan c f st) = lastHeartbeat st"
  "channelRef (upd_chan c f st) = channelRef st"
  "heartbeatRef (upd_chan c f st) = heartbeatRef st"
  "retryTimeoutRef (upd_chan c f st) = retryTimeoutRef st"
  "appStateRef (upd_chan c f st) = appStateRef st"
  "isNetworkConnectedRef (upd_chan c f st) = isNetworkConnectedRef st"
  "timers (upd_chan c f st) = timers st"
  "next_timer (upd_chan c f st) = next_timer st"
  "calls (upd_chan c f st) = calls st"
  "handled (upd_chan c f st) = handled st"
  "length (channels (upd_chan c f st)) = length (channels st)"
  by (simp_all add: upd_chan_def)

lemma timers_ok_connect_catch: "timers_ok st \<Longrightarrow> timers_ok (connect_catch cfg rc e st)"
  by (simp add: connect_catch_def timers_ok_scheduleRetry timers_ok_stopHeartbeat)

lemma timers_ok_unsubscribe:
  "timers_ok st \<Longrightarrow> (case unsubscribe tr c st of Inl (e, s) \<Rightarrow> timers_ok s | Inr s \<Rightarrow> timers_ok s)"
  by (simp add: unsubscribe_def Let_def split: option.splits)

lemma timers_ok_connect_open:
  "timers_ok st \<Longrightarrow> (case connect_open cfg tr st of Inl (e, s) \<Rightarrow> timers_ok s | Inr (c, s) \<Rightarrow> timers_ok s)"
  by (simp add: connect_open_def Let_def split: option.splits)

lemma timers_ok_connect_until_subscribe:
  "timers_ok st \<Longrightarrow> timers_ok (connect_until_subscribe cfg rc tr st)"
  using timers_ok_connect_open [of st cfg tr]
  by (auto simp: connect_until_subscribe_def timers_ok_connect_catch split: sum.splits)

lemma timers_ok_connect_opening:
  "timers_ok st \<Longrightarrow> timers_ok (connect_opening cfg rc tr st)"
  using timers_ok_connect_open [of st cfg tr]
  by (auto simp: connect_opening_def connect_assign_def timers_ok_connect_catch split: sum.splits)

lemma timers_ok_connect_unsubscribed:
  "timers_ok st \<Longrightarrow> timers_ok (connect_unsubscribed cfg m rc tr c st)"
  using timers_ok_unsubscribe [of st tr c]
  by (auto simp: connect_unsubscribed_def timers_ok_connect_catch timers_ok_connect_opening
      timers_ok_connect_until_subscribe split: sum.splits mode.splits)

lemma timers_ok_connect_call:
  "timers_ok st \<Longrightarrow> timers_ok (connect_call m cfg rc tr st)"
  by (auto simp: connect_call_def connect_def connect_enter_def Let_def
      timers_ok_connect_unsubscribed timers_ok_connect_opening timers_ok_connect_until_subscribe
      split: mode.splits option.splits)

lemma timers_ok_disconnect_enter: "timers_ok st \<Longrightarrow> timers_ok (disconnect_enter st)"
  by (auto simp: disconnect_enter_def Let_def timers_ok_stopHeartbeat timers_ok_clearRetry
      split: option.splits)

lemma timers_ok_disconnect_unsubscribed:
  "timers_ok st \<Longrightarrow> timers_ok (disconnect_unsubscribed tr c st)"
  using timers_ok_unsubscribe [of st tr c]
  by (auto simp: disconnect_unsubscribed_def disconnect_done_def split: sum.splits)

lemma timers_ok_disconnect_call:
  "timers_ok st \<Longrightarrow> timers_ok (disconnect_call m tr st)"
  by (auto simp: disconnect_call_def disconnect_def Let_def disconnect_done_def
      timers_ok_disconnect_enter timers_ok_disconnect_unsubscribed
      split: mode.splits option.splits)

lemma connect_call_Completes: "connect_call Completes cfg rc tr st = connect cfg rc tr st"
  by (simp add: connect_call_def)

lemma disconnect_call_Completes: "disconnect_call Completes tr st = disconnect tr st"
  by (simp add: disconnect_call_def)

lemma timers_ok_connect: "timers_ok st \<Longrightarrow> timers_ok (connect cfg rc tr st)"
  using timers_ok_connect_call [of st Completes] by (simp add: connect_call_Completes)

lemma timers_ok_disconnect: "timers_ok st \<Longrightarrow> timers_ok (disconnect tr st)"
  using timers_ok_disconnect_call [of st Completes] by (simp add: disconnect_call_Completes)

lemma timers_ok_reconnect:
  "timers_ok st \<Longrightarrow> timers_ok (reconnect cfg m rc tr tr' st)"
  by (cases m)
     (simp_all add: reconnect_def Let_def timers_ok_connect timers_ok_disconnect
        timers_ok_disconnect_call)

lemma timers_ok_api:
  "timers_ok st \<Longrightarrow> timers_ok (snd (send n p st))"
  "timers_ok st \<Longrightarrow> timers_ok (snd (trackPresence p st))"
  "timers_ok st \<Longrightarrow> timers_ok (snd (untrackPresence st))"
  "timers_ok st \<Longrightarrow> timers_ok (snd (inbound cfg c k pl st))"
  "timers_ok st \<Longrightarrow> timers_ok (heartbeat_tick now st)"
  by (auto simp: send_def trackPresence_def untrackPresence_def inbound_def route_callback_def
      guarded_def heartbeat_tick_def split: option.splits)

lemma timers_ok_callbacks:
  "timers_ok st \<Longrightarrow> timers_ok (on_subscribe_status cfg rc s err st)"
  "timers_ok st \<Longrightarrow> timers_ok (on_system cfg rc s' msg st)"
  by (auto simp: on_subscribe_status_def on_system_def timers_ok_startHeartbeat
      timers_ok_stopHeartbeat timers_ok_scheduleRetry split: sub_status.splits)

lemma timers_ok_listeners:
  "timers_ok st \<Longrightarrow> timers_ok (on_netinfo cfg m rc tr online st)"
  "timers_ok st \<Longrightarrow> timers_ok (handleAppStateChange cfg m rc tr a st)"
  "timers_ok st \<Longrightarrow> timers_ok (retry_callback cfg m rc tr st)"
  "timers_ok st \<Longrightarrow> timers_ok (unmount m tr st)"
  by (auto simp: on_netinfo_def handleAppStateChange_def retry_callback_def unmount_def Let_def
      timers_ok_connect_call timers_ok_disconnect_call timers_ok_stopHeartbeat
      timers_ok_clearTimer split: option.splits)

lemma timers_ok_step: "timers_ok st \<Longrightarrow> timers_ok (step cfg i st)"
  by (cases i)
     (simp_all add: timers_ok_connect_call timers_ok_disconnect_call timers_ok_reconnect
        timers_ok_api timers_ok_callbacks timers_ok_listeners timers_ok_clearTimer
        timers_ok_connect_unsubscribed connect_assign_def timers_ok_disconnect_unsubscribed)

subsection \<open>Channels, routes and the connected flag\<close>

lemma listens_upd [simp]:
  "listens (ch\<lparr>unsubscribed := b\<rparr>) k = listens ch k"
  "listens (ch\<lparr>subscribed := b\<rparr>) k = listens ch k"
  "listens (ch\<lparr>cstate := x\<rparr>) k = listens ch k"
  by (simp_all add: listens_def)

lemma routes_ok_frame [simp]:
  "routes_ok cfg (isConnected_update f1 st) = routes_ok cfg st"
  "routes_ok cfg (connectionStatus_update f2 st) = routes_ok cfg st"
  "routes_ok cfg (error_update f3 st) = routes_ok cfg st"
  "routes_ok cfg (retryCount_update f4 st) = routes_ok cfg st"
  "routes_ok cfg (lastHeartbeat_update f5 st) = routes_ok cfg st"
  "routes_ok cfg (channelRef_update f6 st) = routes_ok cfg st"
  "routes_ok cfg (appStateRef_update f7 st) = routes_ok cfg st"
  "routes_ok cfg (isNetworkConnectedRef_update f8 st) = routes_ok cfg st"
  "routes_ok cfg (heartbeatRef_update f9 st) = routes_ok cfg st"
  "routes_ok cfg (retryTimeoutRef_update f9' st) = routes_ok cfg st"
  "routes_ok cfg (timers_update f9'' st) = routes_ok cfg st"
  "routes_ok cfg (next_timer_update f9''' st) = routes_ok cfg st"
  "routes_ok cfg (calls_update f10 st) = routes_ok cfg st"
  "routes_ok cfg (handled_update f11 st) = routes_ok cfg st"
  by (simp_all add: routes_ok_def)

lemma routes_ok_blocks [simp]:
  "routes_ok cfg (clearTimer i st) = routes_ok cfg st"
  "routes_ok cfg (startHeartbeat cfg' st) = routes_ok cfg st"
  "routes_ok cfg (stopHeartbeat st) = routes_ok cfg st"
  "routes_ok cfg (scheduleRetry cfg' rc st) = routes_ok cfg st"
  by (simp_all add: routes_ok_def)

lemma routes_ok_upd_chan:
  assumes "routes_ok cfg st" and "\<And>ch k. listens (f ch) k = listens ch k"
  shows "routes_ok cfg (upd_chan c f st)"
  using assms by (auto simp: routes_ok_def upd_chan_def nth_list_update)

lemma listens_new:
  "listens \<lparr>bindings = route cfg INSERT @ route cfg UPDATE @ route cfg DELETE @ [System, Broadcast h],
      cstate = x, subscribed = a, unsubscribed = b\<rparr> k = wants (event cfg) k"
  by (cases k) (auto simp: listens_def route_def)

lemma ref_ok_frame [simp]:
  "ref_ok (isConnected_update f1 st) = ref_ok st"
  "ref_ok (connectionStatus_update f2 st) = ref_ok st"
  "ref_ok (error_update f3 st) = ref_ok st"
  "ref_ok (retryCount_update f4 st) = ref_ok st"
  "ref_ok (lastHeartbeat_update f5 st) = ref_ok st"
  "ref_ok (appStateRef_update f7 st) = ref_ok st"
  "ref_ok (isNetworkConnectedRef_update f8 st) = ref_ok st"
  "ref_ok (heartbeatRef_update f9 st) = ref_ok st"
  "ref_ok (retryTimeoutRef_update f9' st) = ref_ok st"
  "ref_ok (timers_update f9'' st) = ref_ok st"
  "ref_ok (next_timer_update f9''' st) = ref_ok st"
  "ref_ok (calls_update f10 st) = ref_ok st"
  "ref_ok (handled_update f11 st) = ref_ok st"
  "ref_ok (st\<lparr>channelRef := None\<rparr>)"
  by (simp_all add: ref_ok_def)

lemma ref_ok_blocks [simp]:
  "ref_ok (clearTimer i st) = ref_ok st"
  "ref_ok (startHeartbeat cfg' st) = ref_ok st"
  "ref_ok (stopHeartbeat st) = ref_ok st"
  "ref_ok (scheduleRetry cfg' rc st) = ref_ok st"
  "ref_ok (upd_chan c f st) = ref_ok st"
  by (simp_all add: ref_ok_def)

lemma conn_ok_frame [simp]:
  "conn_ok (error_update f3 st) = conn_ok st"
  "conn_ok (retryCount_update f4 st) = conn_ok st"
  "conn_ok (lastHeartbeat_update f5 st) = conn_ok st"
  "conn_ok (channelRef_update f6 st) = conn_ok st"
  "conn_ok (appStateRef_update f7 st) = conn_ok st"
  "conn_ok (isNetworkConnectedRef_update f8 st) = conn_ok st"
  "conn_ok (heartbeatRef_update f9 st) = conn_ok st"
  "conn_ok (retryTimeoutRef_update f9' st) = conn_ok st"
  "conn_ok (timers_update f9'' st) = conn_ok st"
  "conn_ok (next_timer_update f9''' st) = conn_ok st"
  "conn_ok (channels_update f9'''' st) = conn_ok st"
  "conn_ok (calls_update f10 st) = conn_ok st"
  "conn_ok (handled_update f11 st) = conn_ok st"
  by (simp_all add: conn_ok_def)

lemma conn_ok_blocks [simp]:
  "conn_ok (clearTimer i st) = conn_ok st"
  "conn_ok (startHeartbeat cfg' st) = conn_ok st"
  "conn_ok (stopHeartbeat st) = conn_ok st"
  "conn_ok (upd_chan c f st) = conn_ok st"
  by (simp_all add: conn_ok_def)

lemma conn_ok_scheduleRetry: "\<not> isConnected st \<Longrightarrow> conn_ok (scheduleRetry cfg rc st)"
  by (simp add: conn_ok_def)

lemma chan_inv_connect_catch: "chan_inv cfg st \<Longrightarrow> chan_inv cfg (connect_catch cfg rc e st)"
  by (simp add: chan_inv_def connect_catch_def conn_ok_scheduleRetry)

lemma chan_inv_unsubscribe:
  "chan_inv cfg st \<Longrightarrow>
     (case unsubscribe tr c st of Inl (e, s) \<Rightarrow> chan_inv cfg s | Inr s \<Rightarrow> chan_inv cfg s)"
  by (auto simp: chan_inv_def unsubscribe_def Let_def routes_ok_upd_chan split: option.splits)

lemma chan_inv_connect_open:
  "chan_inv cfg st \<Longrightarrow>
     (case connect_open cfg tr st of
        Inl (e, s) \<Rightarrow> chan_inv cfg s
      | Inr (c, s) \<Rightarrow> chan_inv cfg s \<and> c < length (channels s))"
  by (auto simp: chan_inv_def connect_open_def Let_def upd_chan_def ref_ok_def conn_ok_def
      routes_ok_def listens_new nth_append nth_list_update less_Suc_eq split: option.splits)

lemma chan_inv_frame [simp]:
  "chan_inv cfg (error_update f3 st) = chan_inv cfg st"
  "chan_inv cfg (retryCount_update f4 st) = chan_inv cfg st"
  "chan_inv cfg (lastHeartbeat_update f5 st) = chan_inv cfg st"
  "chan_inv cfg (appStateRef_update f7 st) = chan_inv cfg st"
  "chan_inv cfg (isNetworkConnectedRef_update f8 st) = chan_inv cfg st"
  "chan_inv cfg (calls_update f10 st) = chan_inv cfg st"
  "chan_inv cfg (handled_update f11 st) = chan_inv cfg st"
  "chan_inv cfg (clearTimer i st) = chan_inv cfg st"
  "chan_inv cfg (startHeartbeat cfg' st) = chan_inv cfg st"
  "chan_inv cfg (stopHeartbeat st) = chan_inv cfg st"
  by (simp_all add: chan_inv_def)

lemma chan_inv_status:
  "chan_inv cfg st \<Longrightarrow> x \<in> {Connected, Connecting, Disconnecting} \<Longrightarrow>
   chan_inv cfg (st\<lparr>connectionStatus := x\<rparr>)"
  by (auto simp: chan_inv_def conn_ok_def)

lemma chan_inv_down:
  "chan_inv cfg st \<Longrightarrow> chan_inv cfg (st\<lparr>isConnected := False, connectionStatus := x\<rparr>)"
  "chan_inv cfg st \<Longrightarrow> chan_inv cfg (st\<lparr>connectionStatus := x, isConnected := False\<rparr>)"
  by (auto simp: chan_inv_def conn_ok_def)

lemma chan_inv_up:
  "chan_inv cfg st \<Longrightarrow> chan_inv cfg (st\<lparr>isConnected := True, connectionStatus := Connected\<rparr>)"
  by (auto simp: chan_inv_def conn_ok_def)

lemma chan_inv_scheduleRetry:
  "chan_inv cfg st \<Longrightarrow> \<not> isConnected st \<Longrightarrow> chan_inv cfg (scheduleRetry cfg rc st)"
  by (auto simp: chan_inv_def conn_ok_def)

lemma chan_inv_unref: "chan_inv cfg st \<Longrightarrow> chan_inv cfg (st\<lparr>channelRef := None\<rparr>)"
  by (auto simp: chan_inv_def)

lemma chan_inv_assign:
  "chan_inv cfg st \<Longrightarrow> c < length (channels st) \<Longrightarrow> chan_inv cfg (connect_assign c st)"
  by (auto simp: chan_inv_def connect_assign_def ref_ok_def)

lemma chan_inv_upd_cstate:
  "chan_inv cfg st \<Longrightarrow> chan_inv cfg (upd_chan c (\<lambda>ch. ch\<lparr>cstate := cs\<rparr>) st)"
  by (auto simp: chan_inv_def routes_ok_upd_chan)

lemma chan_inv_connect_until_subscribe:
  "chan_inv cfg st \<Longrightarrow> chan_inv cfg (connect_until_subscribe cfg rc tr st)"
  using chan_inv_connect_open [of cfg st tr]
  by (auto simp: connect_until_subscribe_def chan_inv_connect_catch split: sum.splits)

lemma chan_inv_connect_opening:
  "chan_inv cfg st \<Longrightarrow> chan_inv cfg (connect_opening cfg rc tr st)"
  using chan_inv_connect_open [of cfg st tr]
  by (auto simp: connect_opening_def chan_inv_assign chan_inv_connect_catch split: sum.splits)

lemma chan_inv_connect_unsubscribed:
  "chan_inv cfg st \<Longrightarrow> chan_inv cfg (connect_unsubscribed cfg m rc tr c st)"
  using chan_inv_unsubscribe [of cfg st tr c]
  by (auto simp: connect_unsubscribed_def chan_inv_connect_catch chan_inv_connect_opening
      chan_inv_connect_until_subscribe chan_inv_unref split: sum.splits mode.splits)

lemma chan_inv_connect_call:
  "chan_inv cfg st \<Longrightarrow> chan_inv cfg (connect_call m cfg rc tr st)"
  by (auto simp: connect_call_def connect_def connect_enter_def Let_def chan_inv_status
      chan_inv_connect_unsubscribed chan_inv_connect_opening chan_inv_connect_until_subscribe
      split: mode.splits option.splits)

lemma chan_inv_disconnect_enter: "chan_inv cfg st \<Longrightarrow> chan_inv cfg (disconnect_enter st)"
  by (auto simp: disconnect_enter_def Let_def chan_inv_def conn_ok_def split: option.splits)

lemma chan_inv_disconnect_done: "chan_inv cfg st \<Longrightarrow> chan_inv cfg (disconnect_done st)"
  by (auto simp: disconnect_done_def chan_inv_def conn_ok_def)

lemma chan_inv_disconnect_unsubscribed:
  "chan_inv cfg st \<Longrightarrow> chan_inv cfg (disconnect_unsubscribed tr c st)"
  using chan_inv_unsubscribe [of cfg st tr c]
  by (auto simp: disconnect_unsubscribed_def chan_inv_disconnect_done chan_inv_unref
      split: sum.splits)

lemma chan_inv_disconnect_call:
  "chan_inv cfg st \<Longrightarrow> chan_inv cfg (disconnect_call m tr st)"
  by (auto simp: disconnect_call_def disconnect_def Let_def chan_inv_disconnect_done
      chan_inv_disconnect_enter chan_inv_disconnect_unsubscribed
      split: mode.splits option.splits)

lemma chan_inv_reconnect:
  "chan_inv cfg st \<Longrightarrow> chan_inv cfg (reconnect cfg m rc tr tr' st)"
  using chan_inv_connect_call [of cfg _ Completes] chan_inv_disconnect_call [of cfg _ Completes]
  by (auto simp: reconnect_def Let_def chan_inv_disconnect_call connect_call_Completes
      disconnect_call_Completes split: mode.splits)

lemma chan_inv_api:
  "chan_inv cfg st \<Longrightarrow> chan_inv cfg (snd (send n p st))"
  "chan_inv cfg st \<Longrightarrow> chan_inv cfg (snd (trackPresence p st))"
  "chan_inv cfg st \<Longrightarrow> chan_inv cfg (snd (untrackPresence st))"
  "chan_inv cfg st \<Longrightarrow> chan_inv cfg (snd (inbound cfg c k pl st))"
  "chan_inv cfg st \<Longrightarrow> chan_inv cfg (heartbeat_tick now st)"
  by (auto simp: send_def trackPresence_def untrackPresence_def inbound_def route_callback_def
      guarded_def heartbeat_tick_def split: option.splits kind.splits)

lemma chan_inv_callbacks:
  "chan_inv cfg st \<Longrightarrow> chan_inv cfg (on_subscribe_status cfg rc s err st)"
  "chan_inv cfg st \<Longrightarrow> chan_inv cfg (on_system cfg rc s' msg st)"
  by (auto simp: on_subscribe_status_def on_system_def chan_inv_up chan_inv_down
      chan_inv_scheduleRetry split: sub_status.splits)

lemma chan_inv_listeners:
  "chan_inv cfg st \<Longrightarrow> chan_inv cfg (on_netinfo cfg m rc tr online st)"
  "chan_inv cfg st \<Longrightarrow> chan_inv cfg (handleAppStateChange cfg m rc tr a st)"
  "chan_inv cfg st \<Longrightarrow> chan_inv cfg (retry_callback cfg m rc tr st)"
  "chan_inv cfg st \<Longrightarrow> chan_inv cfg (unmount m tr st)"
  by (auto simp: on_netinfo_def handleAppStateChange_def retry_callback_def unmount_def Let_def
      chan_inv_connect_call chan_inv_disconnect_call chan_inv_down split: option.splits)

lemma chan_inv_step: "chan_inv cfg st \<Longrightarrow> chan_inv cfg (step cfg i st)"
  by (cases i)
     (simp_all add: chan_inv_connect_call chan_inv_disconnect_call chan_inv_reconnect
        chan_inv_api chan_inv_callbacks chan_inv_listeners chan_inv_upd_cstate
        chan_inv_connect_unsubscribed chan_inv_assign chan_inv_disconnect_unsubscribed)

lemma timers_ok_init: "timers_ok (init a)"
  by (simp add: timers_ok_def init_def)

lemma chan_inv_init: "chan_inv cfg (init a)"
  by (simp add: chan_inv_def ref_ok_def conn_ok_def routes_ok_def init_def)

lemma reachable_timers_ok: "reachable cfg st \<Longrightarrow> timers_ok st"
  by (induction rule: reachable.induct) (simp_all add: timers_ok_init timers_ok_step)

lemma reachable_chan_inv: "reachable cfg st \<Longrightarrow> chan_inv cfg st"
  by (induction rule: reachable.induct) (simp_all add: chan_inv_init chan_inv_step)

subsection \<open>Consequences for the pending timers\<close>

lemma pending_ok:
  assumes "timers_ok st"
  shows "heartbeatRef st = None \<Longrightarrow> pending Interval st = []"
    and "retryTimeoutRef st = None \<Longrightarrow> pending Oneshot st = []"
    and "heartbeatRef st = Some h \<Longrightarrow> pending Interval (clearTimer h st) = []"
    and "retryTimeoutRef st = Some r \<Longrightarrow> pending Oneshot (clearTimer r st) = []"
  using assms by (auto simp: timers_ok_def pending_def clearTimer_def filter_empty_conv)

lemma filter_single:
  "distinct (map f xs) \<Longrightarrow> \<forall>x \<in> set xs. P x \<longrightarrow> f x = a \<Longrightarrow> length (filter P xs) \<le> 1"
proof (induction xs)
  case Nil
  then show ?case by simp
next
  case (Cons x xs)
  show ?case
  proof (cases "P x")
    case True
    then have "f x = a" using Cons.prems by simp
    moreover have "f x \<notin> f ` set xs" using Cons.prems by simp
    ultimately have "\<forall>y \<in> set xs. \<not> P y" using Cons.prems
      by (metis image_eqI list.set_intros(2))
    then have "filter P xs = []" by (simp add: filter_empty_conv)
    then show ?thesis using True by simp
  next
    case False
    then show ?thesis using Cons by simp
  qed
qed

lemma pending_Interval_le_1: "timers_ok st \<Longrightarrow> length (pending Interval st) \<le> 1"
proof (cases "heartbeatRef st")
  case None
  assume "timers_ok st"
  then show ?thesis using None pending_ok(1) by simp
next
  case (Some h)
  assume "timers_ok st"
  then show ?thesis unfolding pending_def
    by (intro filter_single [where f = tm_id and a = h]) (auto simp: timers_ok_def Some)
qed

lemma timers_disconnect_enter_eq:
  "timers (disconnect_enter st) =
     filter (\<lambda>t. Some (tm_id t) \<noteq> retryTimeoutRef st)
       (filter (\<lambda>t. Some (tm_id t) \<noteq> heartbeatRef st) (timers st))"
  by (auto simp: disconnect_enter_def stopHeartbeat_def clearTimer_def Let_def
      split: option.splits intro: filter_cong)

lemma timers_disconnect_enter:
  assumes "timers_ok st"
  shows "timers (disconnect_enter st) = []"
proof -
  have "Some (tm_id t) = heartbeatRef st \<or> Some (tm_id t) = retryTimeoutRef st"
    if "t \<in> set (timers st)" for t
    using that assms by (cases "tm_kind t") (auto simp: timers_ok_def)
  then show ?thesis
    by (auto simp: timers_disconnect_enter_eq filter_empty_conv)
qed

lemma disconnect_enter_refs [simp]:
  "heartbeatRef (disconnect_enter st) = None"
  "retryTimeoutRef (disconnect_enter st) = None"
  "channelRef (disconnect_enter st) = channelRef st"
  "channels (disconnect_enter st) = channels st"
  by (simp_all add: disconnect_enter_def Let_def split: option.splits)

lemma disconnect_timer_fields:
  "timers (disconnect tr st) = timers (disconnect_enter st)"
  "heartbeatRef (disconnect tr st) = None"
  "retryTimeoutRef (disconnect tr st) = None"
  by (simp_all add: disconnect_def Let_def disconnect_unsubscribed_def disconnect_done_def
      unsubscribe_def split: option.splits)

subsection \<open>The transport calls, by their outcome\<close>

lemma unsubscribe_Inl:
  "unsubscribe_throws tr = Some e \<Longrightarrow>
   unsubscribe tr c st = Inl (e, st\<lparr>calls := calls st @ [Unsubscribe c]\<rparr>)"
  by (simp add: unsubscribe_def)

lemma unsubscribe_Inr:
  "unsubscribe_throws tr = None \<Longrightarrow>
   unsubscribe tr c st =
     Inr (upd_chan c (\<lambda>ch. ch\<lparr>unsubscribed := True\<rparr>) (st\<lparr>calls := calls st @ [Unsubscribe c]\<rparr>))"
  by (simp add: unsubscribe_def)

lemma connect_open_Inr:
  "subscribe_throws tr = None \<Longrightarrow>
   connect_open cfg tr st =
     Inr (length (channels st),
          st\<lparr>channels := channels st @
                 [\<lparr>bindings = route cfg INSERT @ route cfg UPDATE @ route cfg DELETE
                      @ [System, Broadcast ''heartbeat''],
                   cstate = Closed, subscribed = True, unsubscribed = False\<rparr>],
             calls := calls st @ [New_channel (length (channels st)), Subscribe (length (channels st))]\<rparr>)"
  by (simp add: connect_open_def Let_def upd_chan_def)

lemma connect_open_Inl:
  "subscribe_throws tr = Some e \<Longrightarrow>
   connect_open cfg tr st =
     Inl (e,
          st\<lparr>channels := channels st @
                 [\<lparr>bindings = route cfg INSERT @ route cfg UPDATE @ route cfg DELETE
                      @ [System, Broadcast ''heartbeat''],
                   cstate = Closed, subscribed = False, unsubscribed = False\<rparr>],
             calls := calls st @ [New_channel (length (channels st)), Subscribe (length (channels st))]\<rparr>)"
  by (simp add: connect_open_def Let_def)

lemma connect_opening_split:
  "connect_opening cfg rc tr st =
     (case subscribe_throws tr of
        None \<Rightarrow> connect_assign (length (channels st)) (connect_until_subscribe cfg rc tr st)
      | Some e \<Rightarrow> connect_until_subscribe cfg rc tr st)"
  by (cases "subscribe_throws tr")
     (simp_all add: connect_opening_def connect_until_subscribe_def connect_open_Inr
        connect_open_Inl)

lemma connect_network [simp]:
  "isNetworkConnectedRef (connect cfg rc tr st) = isNetworkConnectedRef st"
proof -
  have o: "isNetworkConnectedRef (connect_opening cfg rc tr s) = isNetworkConnectedRef s" for s
    by (cases "subscribe_throws tr")
       (simp_all add: connect_opening_def connect_open_Inr connect_open_Inl connect_assign_def
          connect_catch_def)
  have u: "isNetworkConnectedRef (connect_unsubscribed cfg Completes rc tr c s) =
      isNetworkConnectedRef s" for c s
    by (cases "unsubscribe_throws tr")
       (simp_all add: connect_unsubscribed_def unsubscribe_Inr unsubscribe_Inl connect_catch_def o)
  show ?thesis
    by (simp add: connect_def o u Let_def split: option.splits)
qed

subsection \<open>No heartbeat without a new subscription\<close>

text \<open>Only \<open>startHeartbeat\<close> arms an interval, and only the two callbacks that see
  a subscription succeed call it. Once no interval is pending, every other input
  keeps it so, and no heartbeat is sent.\<close>

lemma quiet_frame [simp]:
  "quiet b (isConnected_update f1 st) = quiet b st"
  "quiet b (connectionStatus_update f2 st) = quiet b st"
  "quiet b (error_update f3 st) = quiet b st"
  "quiet b (retryCount_update f4 st) = quiet b st"
  "quiet b (lastHeartbeat_update f5 st) = quiet b st"
  "quiet b (channelRef_update f6 st) = quiet b st"
  "quiet b (heartbeatRef_update f6' st) = quiet b st"
  "quiet b (retryTimeoutRef_update f6'' st) = quiet b st"
  "quiet b (appStateRef_update f7 st) = quiet b st"
  "quiet b (isNetworkConnectedRef_update f8 st) = quiet b st"
  "quiet b (channels_update f9 st) = quiet b st"
  "quiet b (next_timer_update f9' st) = quiet b st"
  "quiet b (handled_update f11 st) = quiet b st"
  "quiet b (upd_chan c f st) = quiet b st"
  by (simp_all add: quiet_def pending_def heartbeats_def)

lemma quiet_call:
  "\<not> is_beat x \<Longrightarrow> quiet b (st\<lparr>calls := calls st @ [x]\<rparr>) = quiet b st"
  "\<not> is_beat x \<Longrightarrow> \<not> is_beat y \<Longrightarrow> quiet b (st\<lparr>calls := calls st @ [x, y]\<rparr>) = quiet b st"
  by (simp_all add: quiet_def pending_def heartbeats_def)

lemma quiet_opened:
  "quiet b st \<Longrightarrow>
   quiet b (st\<lparr>channels := chs, calls := calls st @ [New_channel n, Subscribe n]\<rparr>)"
  by (simp add: quiet_def pending_def heartbeats_def)

lemma quiet_clearTimer: "quiet b st \<Longrightarrow> quiet b (clearTimer i st)"
  by (simp add: quiet_def pending_def heartbeats_def clearTimer_def filter_empty_conv)

lemma quiet_stopHeartbeat: "quiet b st \<Longrightarrow> quiet b (stopHeartbeat st)"
  by (simp add: stopHeartbeat_def quiet_clearTimer split: option.splits)

lemma quiet_scheduleRetry: "quiet b st \<Longrightarrow> quiet b (scheduleRetry cfg rc st)"
  by (auto simp: quiet_def pending_def heartbeats_def scheduleRetry_def Let_def setTimer_def
      clearTimer_def filter_empty_conv split: option.splits)

lemma quiet_connect_catch: "quiet b st \<Longrightarrow> quiet b (connect_catch cfg rc e st)"
  by (simp add: connect_catch_def quiet_scheduleRetry quiet_stopHeartbeat)

lemma quiet_connect_until_subscribe:
  "quiet b st \<Longrightarrow> quiet b (connect_until_subscribe cfg rc tr st)"
  by (cases "subscribe_throws tr")
     (simp_all add: connect_until_subscribe_def connect_open_Inr connect_open_Inl
        quiet_connect_catch quiet_opened)

lemma quiet_connect_opening:
  "quiet b st \<Longrightarrow> quiet b (connect_opening cfg rc tr st)"
  by (cases "subscribe_throws tr")
     (simp_all add: connect_opening_split connect_assign_def quiet_connect_until_subscribe)

lemma quiet_connect_unsubscribed:
  "quiet b st \<Longrightarrow> quiet b (connect_unsubscribed cfg m rc tr c st)"
  by (cases "unsubscribe_throws tr"; cases m)
     (simp_all add: connect_unsubscribed_def unsubscribe_Inr unsubscribe_Inl quiet_connect_catch
        quiet_connect_opening quiet_connect_until_subscribe quiet_call)

lemma quiet_connect_call:
  "quiet b st \<Longrightarrow> quiet b (connect_call m cfg rc tr st)"
  by (cases m)
     (simp_all add: connect_call_def connect_def connect_enter_def Let_def
        quiet_connect_unsubscribed quiet_connect_opening quiet_connect_until_subscribe
        split: option.splits)

lemma quiet_disconnect_enter: "quiet b st \<Longrightarrow> quiet b (disconnect_enter st)"
  by (simp add: disconnect_enter_def Let_def quiet_stopHeartbeat quiet_clearTimer
      split: option.splits)

lemma quiet_disconnect_unsubscribed:
  "quiet b st \<Longrightarrow> quiet b (disconnect_unsubscribed tr c st)"
  by (cases "unsubscribe_throws tr")
     (simp_all add: disconnect_unsubscribed_def unsubscribe_Inr unsubscribe_Inl
        disconnect_done_def quiet_call)

lemma quiet_disconnect_call:
  "quiet b st \<Longrightarrow> quiet b (disconnect_call m tr st)"
  by (cases m)
     (simp_all add: disconnect_call_def disconnect_def Let_def disconnect_done_def
        quiet_disconnect_enter quiet_disconnect_unsubscribed split: option.splits)

lemma quiet_reconnect:
  "quiet b st \<Longrightarrow> quiet b (reconnect cfg m rc tr tr' st)"
  using quiet_connect_call [of b _ Completes] quiet_disconnect_call [of b _ Completes]
  by (cases m)
     (simp_all add: reconnect_def Let_def connect_call_Completes disconnect_call_Completes
        quiet_disconnect_call)

lemma quiet_api:
  "quiet b st \<Longrightarrow> quiet b (snd (send n p st))"
  "quiet b st \<Longrightarrow> quiet b (snd (trackPresence p st))"
  "quiet b st \<Longrightarrow> quiet b (snd (untrackPresence st))"
  "quiet b st \<Longrightarrow> quiet b (snd (inbound cfg c k pl st))"
  by (auto simp: send_def trackPresence_def untrackPresence_def inbound_def route_callback_def
      guarded_def quiet_call split: option.splits)

lemma quiet_listeners:
  "quiet b st \<Longrightarrow> quiet b (on_netinfo cfg m rc tr online st)"
  "quiet b st \<Longrightarrow> quiet b (handleAppStateChange cfg m rc tr a st)"
  "quiet b st \<Longrightarrow> quiet b (retry_callback cfg m rc tr st)"
  "quiet b st \<Longrightarrow> quiet b (unmount m tr st)"
  by (auto simp: on_netinfo_def handleAppStateChange_def retry_callback_def unmount_def Let_def
      quiet_connect_call quiet_disconnect_call quiet_stopHeartbeat quiet_clearTimer
      split: option.splits)

lemma quiet_callbacks:
  "quiet b st \<Longrightarrow> s \<noteq> SUBSCRIBED \<Longrightarrow> quiet b (on_subscribe_status cfg rc s err st)"
  "quiet b st \<Longrightarrow> s' \<noteq> ''ok'' \<Longrightarrow> quiet b (on_system cfg rc s' msg st)"
  by (auto simp: on_subscribe_status_def on_system_def quiet_scheduleRetry quiet_stopHeartbeat
      split: sub_status.splits)

lemma quiet_no_tick: "quiet b st \<Longrightarrow> \<not> active Interval i st"
  by (auto simp: quiet_def pending_def active_def filter_empty_conv list_ex_iff)

lemma quiet_step: "quiet b st \<Longrightarrow> \<not> starts_heartbeat i \<Longrightarrow> quiet b (step cfg i st)"
  by (cases i)
     (simp_all add: quiet_connect_call quiet_disconnect_call quiet_reconnect quiet_api
        quiet_listeners quiet_callbacks quiet_no_tick quiet_clearTimer
        quiet_connect_unsubscribed connect_assign_def quiet_disconnect_unsubscribed)

lemma quiet_run:
  "quiet b st \<Longrightarrow> list_all (\<lambda>i. \<not> starts_heartbeat i) ins \<Longrightarrow> quiet b (run cfg ins st)"
  unfolding run_def
  by (induction ins arbitrary: st) (simp_all add: quiet_step)

lemma quiet_disconnect:
  assumes "timers_ok st"
  shows "quiet (heartbeats st) (disconnect tr st)"
proof -
  have "timers (disconnect tr st) = []"
    by (simp add: disconnect_timer_fields timers_disconnect_enter [OF assms])
  moreover have "calls (disconnect_enter st) = calls st"
    by (simp add: disconnect_enter_def Let_def split: option.splits)
  then have "heartbeats (disconnect tr st) = heartbeats st"
    by (cases "unsubscribe_throws tr")
       (simp_all add: heartbeats_def disconnect_def Let_def disconnect_unsubscribed_def
          unsubscribe_Inr unsubscribe_Inl disconnect_done_def split: option.splits)
  ultimately show ?thesis by (simp add: quiet_def pending_def)
qed

subsection \<open>Runs without suspended calls: one live channel\<close>

text \<open>When every call runs to completion, a live channel is always the one
  \<open>channelRef\<close> holds. A suspended \<open>connect()\<close> breaks this: its channel is live
  before it is assigned.\<close>

lemma seq_inv_frame [simp]:
  "seq_inv (isConnected_update f1 st) = seq_inv st"
  "seq_inv (connectionStatus_update f2 st) = seq_inv st"
  "seq_inv (error_update f3 st) = seq_inv st"
  "seq_inv (retryCount_update f4 st) = seq_inv st"
  "seq_inv (lastHeartbeat_update f5 st) = seq_inv st"
  "seq_inv (appStateRef_update f7 st) = seq_inv st"
  "seq_inv (isNetworkConnectedRef_update f8 st) = seq_inv st"
  "seq_inv (heartbeatRef_update f9 st) = seq_inv st"
  "seq_inv (retryTimeoutRef_update f9' st) = seq_inv st"
  "seq_inv (timers_update f9'' st) = seq_inv st"
  "seq_inv (next_timer_update f9''' st) = seq_inv st"
  "seq_inv (calls_update f10 st) = seq_inv st"
  "seq_inv (handled_update f11 st) = seq_inv st"
  "seq_inv (clearTimer i st) = seq_inv st"
  "seq_inv (startHeartbeat cfg st) = seq_inv st"
  "seq_inv (stopHeartbeat st) = seq_inv st"
  "seq_inv (scheduleRetry cfg rc st) = seq_inv st"
  by (simp_all add: seq_inv_def lone_ok_def ref_ok_def)

lemma none_live_frame [simp]:
  "none_live (isConnected_update f1 st) = none_live st"
  "none_live (connectionStatus_update f2 st) = none_live st"
  "none_live (error_update f3 st) = none_live st"
  "none_live (retryCount_update f4 st) = none_live st"
  "none_live (channelRef_update f6 st) = none_live st"
  "none_live (calls_update f10 st) = none_live st"
  by (simp_all add: none_live_def)






















lemma reachable_seq_reachable: "reachable_seq cfg st \<Longrightarrow> reachable cfg st"
  by (induction rule: reachable_seq.induct) (simp_all add: reachable_init reachable_step)




subsection \<open>The event mask on well-formed values\<close>

text \<open>On the wildcard, on the name of one kind and on an array of kind names, the
  guard in front of a route is membership in the mask.\<close>

lemma wants_star: "wants (EvString ''*'') k"
  by (simp add: wants_def)

lemma wants_kind_name: "wants (EvString (kind_name k')) k = (k = k')"
  by (cases k; cases k') (simp_all add: wants_def kind_name_def)

lemma wants_kind_array: "wants (EvArray (map kind_name ks)) k = (k \<in> set ks)"
proof -
  have "inj kind_name"
    by (rule injI) (auto simp: kind_name_def split: kind.splits)
  then have "kind_name k \<in> kind_name ` set ks \<longleftrightarrow> k \<in> set ks"
    by (simp add: inj_image_mem_iff)
  then show ?thesis by (simp add: wants_def)
qed

section \<open>Sample runs, evaluated\<close>

lemmas model_defs =
  run_def init_def ok_def leave_fails_def demo_cfg_def disabled_cfg_def insert_only_cfg_def
  connected_run_def retrying_run_def busy_run_def overlapping_run_def
  first_render_rc_def mount_error_def error_round_def
  connect_call_def connect_def connect_enter_def connect_opening_def connect_until_subscribe_def
  connect_unsubscribed_def connect_open_def connect_assign_def connect_catch_def
  disconnect_call_def disconnect_def disconnect_enter_def disconnect_done_def
  disconnect_unsubscribed_def unsubscribe_def reconnect_def
  on_subscribe_status_def on_system_def on_netinfo_def handleAppStateChange_def in_background_def
  retry_callback_def unmount_def send_def trackPresence_def untrackPresence_def
  inbound_def route_callback_def guarded_def invoke_def label_def
  startHeartbeat_def stopHeartbeat_def heartbeat_tick_def scheduleRetry_def
  setTimer_def clearTimer_def js_times_pow2_def active_def pending_def chan_def upd_chan_def live_def
  live_handles_def route_def wants_def kind_name_def pg_filter_def listens_def Let_def

lemma reachable_run: "reachable cfg st \<Longrightarrow> reachable cfg (run cfg ins st)"
  unfolding run_def
  by (induction ins arbitrary: st) (simp_all add: reachable_step)

lemma demo_cfg_fields [simp]:
  "table demo_cfg = ''leads''" "filter_cfg demo_cfg = None" "event demo_cfg = EvString ''*''"
  "schema demo_cfg = ''public''" "enabled demo_cfg"
  "retryAttempts demo_cfg = 3" "retryDelay demo_cfg = 1000" "heartbeatInterval demo_cfg = 30000"
  by (simp_all add: demo_cfg_def)

lemma demo_cfg_handlers:
  "onInsert demo_cfg = Some (\<lambda>r p. None)" "onUpdate demo_cfg = Some (\<lambda>r r' p. Some ''boom'')"
  "onDelete demo_cfg = None" "onError demo_cfg = Some (\<lambda>e. None)"
  by (simp_all add: demo_cfg_def)

lemma retrying_state:
  "run demo_cfg retrying_run (init Active) =
     \<lparr>isConnected = False, connectionStatus = Retrying,
      error = Some ''Channel subscription error'', retryCount = 0,
      lastHeartbeat = None, channelRef = Some 0, heartbeatRef = None,
      retryTimeoutRef = Some 1, appStateRef = Active, isNetworkConnectedRef = True,
      channels =
        [\<lparr>bindings =
            [Postgres_changes INSERT ''public'' ''leads'' None,
             Postgres_changes UPDATE ''public'' ''leads'' None,
             Postgres_changes DELETE ''public'' ''leads'' None, System,
             Broadcast ''heartbeat''],
           cstate = Closed, subscribed = True, unsubscribed = False\<rparr>],
      timers = [\<lparr>tm_id = 1, tm_kind = Oneshot, tm_delay = Finite 1000\<rparr>], next_timer = 2,
      calls = [New_channel 0, Subscribe 0], handled = []\<rparr>"
  by (simp add: model_defs)

lemma connected_state:
  "run demo_cfg connected_run (init Active) =
     \<lparr>isConnected = True, connectionStatus = Connected, error = None, retryCount = 0,
      lastHeartbeat = None, channelRef = Some 0, heartbeatRef = Some 1,
      retryTimeoutRef = None, appStateRef = Active, isNetworkConnectedRef = True,
      channels =
        [\<lparr>bindings =
            [Postgres_changes INSERT ''public'' ''leads'' None,
             Postgres_changes UPDATE ''public'' ''leads'' None,
             Postgres_changes DELETE ''public'' ''leads'' None, System,
             Broadcast ''heartbeat''],
           cstate = Joined, subscribed = True, unsubscribed = False\<rparr>],
      timers = [\<lparr>tm_id = 1, tm_kind = Interval, tm_delay = Finite 30000\<rparr>], next_timer = 2,
      calls = [New_channel 0, Subscribe 0], handled = []\<rparr>"
  by (simp add: model_defs)

lemma beating_state:
  "run demo_cfg beating_run (init Active) =
     \<lparr>isConnected = True, connectionStatus = Connected, error = None, retryCount = 0,
      lastHeartbeat = Some 30000, channelRef = Some 0, heartbeatRef = Some 1,
      retryTimeoutRef = None, appStateRef = Active, isNetworkConnectedRef = True,
      channels =
        [\<lparr>bindings =
            [Postgres_changes INSERT ''public'' ''leads'' None,
             Postgres_changes UPDATE ''public'' ''leads'' None,
             Postgres_changes DELETE ''public'' ''leads'' None, System,
             Broadcast ''heartbeat''],
           cstate = Joined, subscribed = True, unsubscribed = False\<rparr>],
      timers = [\<lparr>tm_id = 1, tm_kind = Interval, tm_delay = Finite 30000\<rparr>], next_timer = 2,
      calls = [New_channel 0, Subscribe 0, Send 0 ''heartbeat'' (Timestamp 30000)],
      handled = []\<rparr>"
  by (simp add: model_defs beating_run_def)

lemma reconnecting_state:
  "run demo_cfg reconnecting_run (init Active) =
     \<lparr>isConnected = True, connectionStatus = Connecting, error = None, retryCount = 0,
      lastHeartbeat = None, channelRef = Some 1, heartbeatRef = Some 1,
      retryTimeoutRef = None, appStateRef = Active, isNetworkConnectedRef = True,
      channels =
        [\<lparr>bindings =
            [Postgres_changes INSERT ''public'' ''leads'' None,
             Postgres_changes UPDATE ''public'' ''leads'' None,
             Postgres_changes DELETE ''public'' ''leads'' None, System,
             Broadcast ''heartbeat''],
           cstate = Joined, subscribed = True, unsubscribed = True\<rparr>,
         \<lparr>bindings =
            [Postgres_changes INSERT ''public'' ''leads'' None,
             Postgres_changes UPDATE ''public'' ''leads'' None,
             Postgres_changes DELETE ''public'' ''leads'' None, System,
             Broadcast ''heartbeat''],
           cstate = Closed, subscribed = True, unsubscribed = False\<rparr>],
      timers = [\<lparr>tm_id = 1, tm_kind = Interval, tm_delay = Finite 30000\<rparr>], next_timer = 2,
      calls = [New_channel 0, Subscribe 0, Unsubscribe 0, New_channel 1, Subscribe 1],
      handled = []\<rparr>"
  by (simp add: model_defs reconnecting_run_def)

lemma offline_state:
  "run demo_cfg offline_run (init Active) =
     \<lparr>isConnected = False, connectionStatus = Network_disconnected, error = None,
      retryCount = 0, lastHeartbeat = None, channelRef = Some 0, heartbeatRef = Some 1,
      retryTimeoutRef = None, appStateRef = Active, isNetworkConnectedRef = False,
      channels =
        [\<lparr>bindings =
            [Postgres_changes INSERT ''public'' ''leads'' None,
             Postgres_changes UPDATE ''public'' ''leads'' None,
             Postgres_changes DELETE ''public'' ''leads'' None, System,
             Broadcast ''heartbeat''],
           cstate = Joined, subscribed = True, unsubscribed = False\<rparr>],
      timers = [\<lparr>tm_id = 1, tm_kind = Interval, tm_delay = Finite 30000\<rparr>], next_timer = 2,
      calls = [New_channel 0, Subscribe 0], handled = []\<rparr>"
  by (simp add: model_defs offline_run_def)

lemma insert_only_state:
  "run insert_only_cfg connected_run (init Active) =
     \<lparr>isConnected = True, connectionStatus = Connected, error = None, retryCount = 0,
      lastHeartbeat = None, channelRef = Some 0, heartbeatRef = Some 1,
      retryTimeoutRef = None, appStateRef = Active, isNetworkConnectedRef = True,
      channels =
        [\<lparr>bindings =
            [Postgres_changes INSERT ''public'' ''leads'' None, System,
             Broadcast ''heartbeat''],
           cstate = Joined, subscribed = True, unsubscribed = False\<rparr>],
      timers = [\<lparr>tm_id = 1, tm_kind = Interval, tm_delay = Finite 30000\<rparr>], next_timer = 2,
      calls = [New_channel 0, Subscribe 0], handled = []\<rparr>"
  by (simp add: model_defs)


lemma opening_state:
  "run demo_cfg opening_run (init Active) =
     \<lparr>isConnected = False, connectionStatus = Connecting, error = None, retryCount = 0,
      lastHeartbeat = None, channelRef = None, heartbeatRef = None,
      retryTimeoutRef = None, appStateRef = Active, isNetworkConnectedRef = True,
      channels =
        [\<lparr>bindings =
            [Postgres_changes INSERT ''public'' ''leads'' None,
             Postgres_changes UPDATE ''public'' ''leads'' None,
             Postgres_changes DELETE ''public'' ''leads'' None, System,
             Broadcast ''heartbeat''],
           cstate = Closed, subscribed = True, unsubscribed = False\<rparr>],
      timers = [], next_timer = 1,
      calls = [New_channel 0, Subscribe 0], handled = []\<rparr>"
  by (simp add: model_defs opening_run_def)


section \<open>The retry and the heartbeat, call by call\<close>

text \<open>What \<open>scheduleRetry\<close> does with the retry count \<open>rc\<close> it reads: below
  \<open>retryAttempts\<close> it leaves exactly one single-shot timer pending, the one it has
  just armed under a fresh identifier with the delay \<open>retryDelay * 2 ^ rc\<close> as the
  source computes it, and sets the status to \<open>retrying\<close>; at or above
  \<open>retryAttempts\<close> it arms nothing and sets the status to
  \<open>max_retries_exceeded\<close>. The count is the one of its closure: the \<open>retryCount\<close>
  of the state plays no part.\<close>

lemma scheduleRetry_by_count:
  assumes "timers_ok st"
  shows "(rc < retryAttempts cfg \<longrightarrow>
            pending Oneshot (scheduleRetry cfg rc st) =
              [\<lparr>tm_id = next_timer st, tm_kind = Oneshot,
                tm_delay = js_times_pow2 (retryDelay cfg) rc\<rparr>] \<and>
            retryTimeoutRef (scheduleRetry cfg rc st) = Some (next_timer st) \<and>
            connectionStatus (scheduleRetry cfg rc st) = Retrying) \<and>
         (retryAttempts cfg \<le> rc \<longrightarrow>
            timers (scheduleRetry cfg rc st) = timers st \<and>
            next_timer (scheduleRetry cfg rc st) = next_timer st \<and>
            connectionStatus (scheduleRetry cfg rc st) = Max_retries_exceeded)"
proof (intro conjI impI)
  assume rc: "rc < retryAttempts cfg"
  show "pending Oneshot (scheduleRetry cfg rc st) =
      [\<lparr>tm_id = next_timer st, tm_kind = Oneshot,
        tm_delay = js_times_pow2 (retryDelay cfg) rc\<rparr>]"
  proof (cases "retryTimeoutRef st")
    case None
    with pending_ok(2) [OF assms] rc show ?thesis
      by (simp add: scheduleRetry_def Let_def setTimer_def pending_def)
  next
    case (Some r)
    with pending_ok(4) [OF assms Some] rc show ?thesis
      by (simp add: scheduleRetry_def Let_def setTimer_def pending_def clearTimer_def)
  qed
  show "retryTimeoutRef (scheduleRetry cfg rc st) = Some (next_timer st)"
    using rc by (simp add: scheduleRetry_def Let_def setTimer_def split: option.splits)
  show "connectionStatus (scheduleRetry cfg rc st) = Retrying"
    using rc by (simp add: scheduleRetry_status)
next
  assume "retryAttempts cfg \<le> rc"
  then show "timers (scheduleRetry cfg rc st) = timers st"
    "next_timer (scheduleRetry cfg rc st) = next_timer st"
    "connectionStatus (scheduleRetry cfg rc st) = Max_retries_exceeded"
    by (simp_all add: scheduleRetry_def)
qed

lemma js_times_pow2_exact:
  "n < 1024 \<Longrightarrow> d * 2 ^ n < 2 ^ 1024 \<Longrightarrow> js_times_pow2 d n = Finite (d * 2 ^ n)"
  by (simp add: js_times_pow2_def)

lemma scheduleRetry_ignores_retryCount:
  "scheduleRetry cfg rc (st\<lparr>retryCount := n\<rparr>) = (scheduleRetry cfg rc st)\<lparr>retryCount := n\<rparr>"
  by (simp add: scheduleRetry_def Let_def setTimer_def clearTimer_def split: option.splits)

text \<open>With the count of the first render, a channel error arms a timeout with the
  delay of a first attempt, \<open>retryDelay * 2 ^ 0\<close>, and sets the status to \<open>retrying\<close>
  in every state, whatever its \<open>retryCount\<close>, as soon as one attempt is allowed.\<close>

lemma scheduleRetry_first_render:
  assumes "timers_ok st" "0 < retryAttempts cfg"
  shows "connectionStatus (on_subscribe_status cfg first_render_rc CHANNEL_ERROR e st) = Retrying"
    "pending Oneshot (on_subscribe_status cfg first_render_rc CHANNEL_ERROR e st) =
       [\<lparr>tm_id = next_timer st, tm_kind = Oneshot,
         tm_delay = js_times_pow2 (retryDelay cfg) 0\<rparr>]"
    "retryCount (on_subscribe_status cfg first_render_rc CHANNEL_ERROR e st) = retryCount st"
proof -
  let ?s = "stopHeartbeat (st\<lparr>isConnected := False, connectionStatus := Error,
      error := Some (case e of Some x \<Rightarrow> x | None \<Rightarrow> ''Channel subscription error'')\<rparr>)"
  have t: "timers_ok ?s" using assms(1) by (simp add: timers_ok_stopHeartbeat)
  have n: "next_timer ?s = next_timer st" by simp
  have e: "on_subscribe_status cfg first_render_rc CHANNEL_ERROR e st = scheduleRetry cfg 0 ?s"
    by (simp add: on_subscribe_status_def first_render_rc_def)
  show "connectionStatus (on_subscribe_status cfg first_render_rc CHANNEL_ERROR e st) = Retrying"
    using scheduleRetry_by_count [OF t, of 0 cfg] assms(2) unfolding e by blast
  show "pending Oneshot (on_subscribe_status cfg first_render_rc CHANNEL_ERROR e st) =
       [\<lparr>tm_id = next_timer st, tm_kind = Oneshot,
         tm_delay = js_times_pow2 (retryDelay cfg) 0\<rparr>]"
    using scheduleRetry_by_count [OF t, of 0 cfg] assms(2) unfolding e n by blast
  show "retryCount (on_subscribe_status cfg first_render_rc CHANNEL_ERROR e st) = retryCount st"
    unfolding e by simp
qed

text \<open>What holds of the heartbeat in every reachable state: at most one interval
  is pending; \<open>startHeartbeat\<close> leaves exactly one, the one it has just armed; a
  tick sends the \<open>heartbeat\<close> broadcast on the held channel and records the time
  when that channel's state is \<open>joined\<close>, and does nothing otherwise;
  \<open>stopHeartbeat\<close> leaves no interval pending and is idempotent; and after a
  \<open>disconnect()\<close> that ran to completion no interval is pending, none is armed
  and no heartbeat is sent for as long as no channel reports \<open>SUBSCRIBED\<close> and no
  system message \<open>ok\<close> arrives.\<close>

lemma heartbeat_facts:
  assumes "reachable cfg st"
  shows "length (pending Interval st) \<le> 1 \<and>
         pending Interval (startHeartbeat cfg st) =
           [\<lparr>tm_id = next_timer st, tm_kind = Interval, tm_delay = Finite (heartbeatInterval cfg)\<rparr>] \<and>
         (channelRef st = Some c \<and> cstate (channels st ! c) = Joined \<longrightarrow>
            heartbeat_tick now st =
              st\<lparr>calls := calls st @ [Send c ''heartbeat'' (Timestamp now)],
                 lastHeartbeat := Some now\<rparr>) \<and>
         (channelRef st = None \<or> (channelRef st = Some c \<and> cstate (channels st ! c) \<noteq> Joined) \<longrightarrow>
            heartbeat_tick now st = st) \<and>
         pending Interval (stopHeartbeat st) = [] \<and>
         stopHeartbeat (stopHeartbeat st) = stopHeartbeat st \<and>
         pending Interval (disconnect tr st) = [] \<and>
         (\<not> list_ex starts_heartbeat ins \<longrightarrow>
            pending Interval (run cfg ins (disconnect tr st)) = [] \<and>
            heartbeats (run cfg ins (disconnect tr st)) = heartbeats st)"
proof -
  have t: "timers_ok st" by (rule reachable_timers_ok [OF assms])
  have r: "ref_ok st" using reachable_chan_inv [OF assms] by (simp add: chan_inv_def)
  have one: "length (pending Interval st) \<le> 1" by (rule pending_Interval_le_1 [OF t])
  have start: "pending Interval (startHeartbeat cfg st) =
      [\<lparr>tm_id = next_timer st, tm_kind = Interval, tm_delay = Finite (heartbeatInterval cfg)\<rparr>]"
  proof (cases "heartbeatRef st")
    case None
    with pending_ok(1) [OF t] show ?thesis
      by (simp add: startHeartbeat_def Let_def setTimer_def pending_def)
  next
    case (Some h)
    with pending_ok(3) [OF t Some] show ?thesis
      by (simp add: startHeartbeat_def Let_def setTimer_def pending_def clearTimer_def)
  qed
  have tick1: "heartbeat_tick now st =
      st\<lparr>calls := calls st @ [Send c ''heartbeat'' (Timestamp now)], lastHeartbeat := Some now\<rparr>"
    if "channelRef st = Some c" "cstate (channels st ! c) = Joined"
    using that r by (simp add: heartbeat_tick_def chan_def ref_ok_def)
  have tick2: "heartbeat_tick now st = st"
    if "channelRef st = None \<or> (channelRef st = Some c \<and> cstate (channels st ! c) \<noteq> Joined)"
    using that r by (auto simp: heartbeat_tick_def chan_def ref_ok_def)
  have stop: "pending Interval (stopHeartbeat st) = []"
    using pending_ok(1,3) [OF t]
    by (auto simp: stopHeartbeat_def pending_def clearTimer_def split: option.splits)
  have idem: "stopHeartbeat (stopHeartbeat st) = stopHeartbeat st"
    by (simp add: stopHeartbeat_def [of "stopHeartbeat st"])
  have q: "quiet (heartbeats st) (disconnect tr st)" by (rule quiet_disconnect [OF t])
  then have d1: "pending Interval (disconnect tr st) = []"
    by (simp add: quiet_def)
  have d2: "pending Interval (run cfg ins (disconnect tr st)) = [] \<and>
      heartbeats (run cfg ins (disconnect tr st)) = heartbeats st"
    if "\<not> list_ex starts_heartbeat ins"
  proof -
    have "list_all (\<lambda>i. \<not> starts_heartbeat i) ins"
      using that by (simp add: list_all_iff list_ex_iff)
    from quiet_run [OF q this] show ?thesis by (simp add: quiet_def)
  qed
  show ?thesis
    using one start tick1 tick2 stop idem d1 d2 by blast
qed

lemma heartbeat_facts_sample:
  "reachable demo_cfg (run demo_cfg connected_run (init Active)) \<and>
   pending Interval (run demo_cfg connected_run (init Active)) =
     [\<lparr>tm_id = 1, tm_kind = Interval, tm_delay = Finite 30000\<rparr>] \<and>
   pending Interval (startHeartbeat demo_cfg (run demo_cfg connected_run (init Active))) =
     [\<lparr>tm_id = 2, tm_kind = Interval, tm_delay = Finite 30000\<rparr>] \<and>
   channelRef (run demo_cfg connected_run (init Active)) = Some 0 \<and>
   cstate (channels (run demo_cfg connected_run (init Active)) ! 0) = Joined \<and>
   calls (heartbeat_tick 30000 (run demo_cfg connected_run (init Active))) =
     [New_channel 0, Subscribe 0, Send 0 ''heartbeat'' (Timestamp 30000)] \<and>
   lastHeartbeat (heartbeat_tick 30000 (run demo_cfg connected_run (init Active))) = Some 30000 \<and>
   reachable demo_cfg (run demo_cfg beating_run (init Active)) \<and>
   pending Interval (disconnect ok (run demo_cfg beating_run (init Active))) = [] \<and>
   \<not> list_ex starts_heartbeat
     [Heartbeat_fires 1 60000, Subscribe_status CLOSED None 0, Call_connect Completes 0 ok,
      Heartbeat_fires 1 90000] \<and>
   heartbeats
     (run demo_cfg
        [Heartbeat_fires 1 60000, Subscribe_status CLOSED None 0, Call_connect Completes 0 ok,
         Heartbeat_fires 1 90000]
        (disconnect ok (run demo_cfg beating_run (init Active)))) =
     [Send 0 ''heartbeat'' (Timestamp 30000)] \<and>
   reachable demo_cfg (init Active) \<and>
   channelRef (init Active) = None \<and>
   heartbeat_tick 30000 (init Active) = init Active"
proof -
  let ?s = "run demo_cfg connected_run (init Active)"
  let ?b = "run demo_cfg beating_run (init Active)"
  let ?ins = "[Heartbeat_fires 1 60000, Subscribe_status CLOSED None 0,
      Call_connect Completes 0 ok, Heartbeat_fires 1 90000]"
  have r: "reachable demo_cfg ?s"
    by (rule reachable_run) (rule reachable_init)
  have rb: "reachable demo_cfg ?b"
    by (rule reachable_run) (rule reachable_init)
  have r0: "reachable demo_cfg (init Active)"
    by (rule reachable_init)
  have h: "channelRef ?s = Some 0" "cstate (channels ?s ! 0) = Joined"
    "pending Interval ?s = [\<lparr>tm_id = 1, tm_kind = Interval, tm_delay = Finite 30000\<rparr>]"
    by (simp_all add: connected_state pending_def)
  have v: "next_timer ?s = 2" "calls ?s = [New_channel 0, Subscribe 0]"
    by (simp_all add: connected_state)
  have hb: "heartbeats ?b = [Send 0 ''heartbeat'' (Timestamp 30000)]"
    by (simp add: beating_state heartbeats_def)
  have h0: "channelRef (init Active) = None" by (simp add: init_def)
  have i: "\<not> list_ex starts_heartbeat ?ins" by simp
  note t = heartbeat_facts [OF r, where c = 0 and now = 30000]
  note tb = heartbeat_facts [OF rb, where tr = ok and ins = ?ins]
  note t0 = heartbeat_facts [OF r0, where c = 0 and now = 30000]
  have a: "pending Interval (startHeartbeat demo_cfg ?s) =
      [\<lparr>tm_id = 2, tm_kind = Interval, tm_delay = Finite 30000\<rparr>]"
    using t v(1) by simp
  have "heartbeat_tick 30000 ?s =
      ?s\<lparr>calls := calls ?s @ [Send 0 ''heartbeat'' (Timestamp 30000)], lastHeartbeat := Some 30000\<rparr>"
    using t h(1,2) by blast
  then have b: "calls (heartbeat_tick 30000 ?s) =
      [New_channel 0, Subscribe 0, Send 0 ''heartbeat'' (Timestamp 30000)]"
    and c: "lastHeartbeat (heartbeat_tick 30000 ?s) = Some 30000"
    using v(2) by simp_all
  have d: "pending Interval (disconnect ok ?b) = []"
    using tb by blast
  have "heartbeats (run demo_cfg ?ins (disconnect ok ?b)) = heartbeats ?b"
    using tb i by blast
  then have e: "heartbeats (run demo_cfg ?ins (disconnect ok ?b)) =
      [Send 0 ''heartbeat'' (Timestamp 30000)]"
    by (simp add: hb)
  have f: "heartbeat_tick 30000 (init Active) = init Active"
    using t0 h0 by blast
  show ?thesis
    by (intro conjI) (fact r rb r0 h h0 i a b c d e f)+
qed

section \<open>The claims\<close>

subsection \<open>C1: exponential backoff\<close>

text \<open>
  C1 fails on the code. The claim is about the retry count of the hook, the
  \<open>retryCount\<close> which the retry timeout increments; \<open>scheduleRetry\<close> as a function
  of the count it reads does what the claim says (\<open>scheduleRetry_by_count\<close>), but
  the mounted hook never hands it the current count: every call reads
  \<open>first_render_rc\<close>. With the defaults (three attempts from 1000 ms) and a channel
  that reports \<open>CHANNEL_ERROR\<close> at every attempt, \<open>scheduleRetry\<close> is called with
  \<open>retryCount\<close> 0, 1, 2 and 3. Each call arms a timeout of 1000 ms, where the claim
  has 1000, 2000 and 4000 ms; and the fourth call, made when
  \<open>retryCount = 3 = retryAttempts\<close>, arms a timeout again and sets the status to
  \<open>retrying\<close>, where the claim has no timer and \<open>max_retries_exceeded\<close>.
\<close>

theorem scheduleRetry_stale_count:
  "retryAttempts demo_cfg = 3 \<and> retryDelay demo_cfg = 1000 \<and>
   retryCount (run demo_cfg mount_error (init Active)) = 0 \<and>
   pending Oneshot (run demo_cfg mount_error (init Active)) =
     [\<lparr>tm_id = 1, tm_kind = Oneshot, tm_delay = Finite 1000\<rparr>] \<and>
   retryCount (run demo_cfg (mount_error @ error_round 1) (init Active)) = 1 \<and>
   pending Oneshot (run demo_cfg (mount_error @ error_round 1) (init Active)) =
     [\<lparr>tm_id = 2, tm_kind = Oneshot, tm_delay = Finite 1000\<rparr>] \<and>
   retryCount (run demo_cfg (mount_error @ error_round 1 @ error_round 2) (init Active)) = 2 \<and>
   pending Oneshot (run demo_cfg (mount_error @ error_round 1 @ error_round 2) (init Active)) =
     [\<lparr>tm_id = 3, tm_kind = Oneshot, tm_delay = Finite 1000\<rparr>] \<and>
   retryCount
     (run demo_cfg (mount_error @ error_round 1 @ error_round 2 @ error_round 3) (init Active)) = 3 \<and>
   connectionStatus
     (run demo_cfg (mount_error @ error_round 1 @ error_round 2 @ error_round 3) (init Active)) =
     Retrying \<and>
   pending Oneshot
     (run demo_cfg (mount_error @ error_round 1 @ error_round 2 @ error_round 3) (init Active)) =
     [\<lparr>tm_id = 4, tm_kind = Oneshot, tm_delay = Finite 1000\<rparr>]"
  by (simp add: model_defs)

subsection \<open>C2: connect is not idempotent; one live channel when calls do not overlap\<close>




subsection \<open>C3: a disabled or table-less configuration\<close>

text \<open>
  C3, as the code has it. With \<open>enabled\<close> false or an empty \<open>table\<close>, \<open>connect()\<close>
  returns at its guard and leaves the state as it was: no channel is opened, no
  retry is scheduled, the status and the error are untouched, and no handler is
  called, \<open>onError\<close> included.
\<close>

theorem connect_guard_returns:
  assumes "\<not> enabled cfg \<or> table cfg = []"
  shows "connect cfg rc tr st = st \<and> connect_call m cfg rc tr st = st"
  using assms by (cases m) (auto simp: connect_def connect_call_def connect_enter_def)

theorem connect_guard_returns_witness:
  "\<not> enabled disabled_cfg \<and>
   connect disabled_cfg 0 ok (run demo_cfg retrying_run (init Active)) =
     run demo_cfg retrying_run (init Active) \<and>
   table no_table_cfg = [] \<and>
   connect no_table_cfg 0 ok (init Active) = init Active"
  using connect_guard_returns [of disabled_cfg 0 ok "run demo_cfg retrying_run (init Active)" Completes]
    connect_guard_returns [of no_table_cfg 0 ok "init Active" Completes]
  by (simp add: disabled_cfg_def no_table_cfg_def demo_cfg_def)

text \<open>No error reaches \<open>onError\<close>: with \<open>enabled\<close> false and an \<open>onError\<close> handler
  registered, \<open>connect()\<close> has called no handler and recorded no error.\<close>

theorem connect_guard_silent_counterexample:
  "\<not> enabled disabled_cfg \<and>
   onError disabled_cfg \<noteq> None \<and>
   handled (connect disabled_cfg 0 ok (init Active)) = [] \<and>
   error (connect disabled_cfg 0 ok (init Active)) = None \<and>
   connectionStatus (connect disabled_cfg 0 ok (init Active)) = Disconnected"
  by (simp add: disabled_cfg_def demo_cfg_def connect_def init_def)

subsection \<open>C4: disconnect\<close>




subsection \<open>C5: send and trackPresence while not connected\<close>

text \<open>
  C5, as the code has it. The guard of \<open>send\<close> and \<open>trackPresence\<close> reads
  \<open>channelRef\<close> and \<open>isConnected\<close>, not the status. Whenever no channel is held or
  \<open>isConnected\<close> is false, and so in every reachable state whose status is none of
  \<open>connected\<close>, \<open>connecting\<close> and \<open>disconnecting\<close>, both throw
  \<open>Not connected to realtime channel\<close> to their caller and leave the state as it
  was: no transport call is made and no handler is called.
\<close>

theorem send_requires_connected:
  assumes "channelRef st = None \<or> \<not> isConnected st \<or>
           (reachable cfg st \<and> connectionStatus st \<notin> {Connected, Connecting, Disconnecting})"
  shows "send eventName p st = (Some ''Not connected to realtime channel'', st) \<and>
         trackPresence presence st = (Some ''Not connected to realtime channel'', st)"
proof -
  have "channelRef st = None \<or> \<not> isConnected st"
    using assms reachable_chan_inv [of cfg st] by (auto simp: chan_inv_def conn_ok_def)
  then show ?thesis
    by (auto simp: send_def trackPresence_def split: option.splits)
qed

theorem send_requires_connected_witness:
  "reachable demo_cfg (run demo_cfg retrying_run (init Active)) \<and>
   connectionStatus (run demo_cfg retrying_run (init Active)) = Retrying \<and>
   channelRef (run demo_cfg retrying_run (init Active)) = Some 0 \<and>
   send ''ping'' ''{}'' (run demo_cfg retrying_run (init Active)) =
     (Some ''Not connected to realtime channel'', run demo_cfg retrying_run (init Active)) \<and>
   trackPresence ''here'' (run demo_cfg retrying_run (init Active)) =
     (Some ''Not connected to realtime channel'', run demo_cfg retrying_run (init Active))"
proof -
  have r: "reachable demo_cfg (run demo_cfg retrying_run (init Active))"
    by (rule reachable_run) (rule reachable_init)
  have s: "connectionStatus (run demo_cfg retrying_run (init Active)) = Retrying"
    "channelRef (run demo_cfg retrying_run (init Active)) = Some 0"
    by (simp_all add: retrying_state)
  show ?thesis
    using r s send_requires_connected [of "run demo_cfg retrying_run (init Active)" demo_cfg
        "''ping''" "''{}''" "''here''"]
    by simp
qed

text \<open>The claim as stated fails: \<open>connect()\<close> called on the connected hook sets the
  status to \<open>connecting\<close> and leaves \<open>isConnected\<close> true, and then both calls go
  through to the new channel.\<close>

theorem send_while_connecting_counterexample:
  "connectionStatus (run demo_cfg reconnecting_run (init Active)) = Connecting \<and>
   send ''ping'' ''{}'' (run demo_cfg reconnecting_run (init Active)) =
     (None, (run demo_cfg reconnecting_run (init Active))
        \<lparr>calls := calls (run demo_cfg reconnecting_run (init Active))
                   @ [Send 1 ''ping'' (Body ''{}'')]\<rparr>) \<and>
   trackPresence ''here'' (run demo_cfg reconnecting_run (init Active)) =
     (None, (run demo_cfg reconnecting_run (init Active))
        \<lparr>calls := calls (run demo_cfg reconnecting_run (init Active)) @ [Track 1 ''here'']\<rparr>)"
  unfolding reconnecting_state by (simp add: send_def trackPresence_def)

subsection \<open>C6: a handler that throws\<close>

text \<open>
  C6. When a change of kind \<open>k\<close> arrives on a channel that listens for it and the
  handler registered for \<open>k\<close> throws \<open>e\<close>, the callback catches \<open>e\<close> and passes it
  to \<open>onError\<close> when one is registered; nothing but the record of the handler
  calls changes (status, \<open>isConnected\<close>, the channels, \<open>channelRef\<close>, the timers and
  the transport calls are as before); the only exception that can leave the
  callback is one raised by \<open>onError\<close> itself; and a following message of any kind
  \<open>k'\<close> the channel listens for, with a handler registered, still reaches its
  handler.
\<close>

theorem handler_error_isolated:
  assumes "c < length (channels st)" and "listens (channels st ! c) k"
    and "invoke cfg k p = Some (Some e)"
  shows "snd (inbound cfg c k p st) =
           st\<lparr>handled := handled st @ label k p #
                 (case onError cfg of None \<Rightarrow> [] | Some g \<Rightarrow> [Called_onError e])\<rparr> \<and>
         fst (inbound cfg c k p st) = (case onError cfg of None \<Rightarrow> None | Some g \<Rightarrow> g e) \<and>
         connectionStatus (snd (inbound cfg c k p st)) = connectionStatus st \<and>
         isConnected (snd (inbound cfg c k p st)) = isConnected st \<and>
         channelRef (snd (inbound cfg c k p st)) = channelRef st \<and>
         channels (snd (inbound cfg c k p st)) = channels st \<and>
         timers (snd (inbound cfg c k p st)) = timers st \<and>
         calls (snd (inbound cfg c k p st)) = calls st \<and>
         (listens (channels st ! c) k' \<and> invoke cfg k' p' \<noteq> None \<longrightarrow>
            label k' p' \<in> set (handled (snd (inbound cfg c k' p' (snd (inbound cfg c k p st))))))"
proof -
  let ?s = "snd (inbound cfg c k p st)"
  have eq: "?s = st\<lparr>handled := handled st @ label k p #
                 (case onError cfg of None \<Rightarrow> [] | Some g \<Rightarrow> [Called_onError e])\<rparr>"
    and ex: "fst (inbound cfg c k p st) = (case onError cfg of None \<Rightarrow> None | Some g \<Rightarrow> g e)"
    using assms
    by (simp_all add: inbound_def chan_def route_callback_def guarded_def split: option.splits)
  have ch: "channels ?s = channels st" by (simp add: eq)
  have nxt: "label k' p' \<in> set (handled (snd (inbound cfg c k' p' ?s)))"
    if "listens (channels st ! c) k'" "invoke cfg k' p' \<noteq> None"
    using that assms(1) ch
    by (auto simp add: inbound_def chan_def route_callback_def guarded_def split: option.splits)
  show ?thesis using eq ex nxt by simp
qed

text \<open>The \<open>onUpdate\<close> handler of the sample configuration throws; the next
  \<open>INSERT\<close> still reaches \<open>onInsert\<close>.\<close>

theorem handler_error_isolated_witness:
  "0 < length (channels (run demo_cfg connected_run (init Active))) \<and>
   listens (channels (run demo_cfg connected_run (init Active)) ! 0) UPDATE \<and>
   invoke demo_cfg UPDATE sample_change = Some (Some ''boom'') \<and>
   fst (inbound demo_cfg 0 UPDATE sample_change (run demo_cfg connected_run (init Active))) = None \<and>
   handled (snd (inbound demo_cfg 0 UPDATE sample_change
      (run demo_cfg connected_run (init Active)))) =
     [Called_onUpdate ''new row'' ''old row'' sample_change, Called_onError ''boom''] \<and>
   connectionStatus (snd (inbound demo_cfg 0 UPDATE sample_change
      (run demo_cfg connected_run (init Active)))) = Connected \<and>
   channelRef (snd (inbound demo_cfg 0 UPDATE sample_change
      (run demo_cfg connected_run (init Active)))) = Some 0 \<and>
   listens (channels (run demo_cfg connected_run (init Active)) ! 0) INSERT \<and>
   invoke demo_cfg INSERT sample_change \<noteq> None \<and>
   Called_onInsert ''new row'' sample_change
     \<in> set (handled (snd (inbound demo_cfg 0 INSERT sample_change
          (snd (inbound demo_cfg 0 UPDATE sample_change
             (run demo_cfg connected_run (init Active)))))))"
proof -
  let ?s = "run demo_cfg connected_run (init Active)"
  have h1: "0 < length (channels ?s)"
    and h2: "listens (channels ?s ! 0) UPDATE"
    and h3: "invoke demo_cfg UPDATE sample_change = Some (Some ''boom'')"
    and h4: "listens (channels ?s ! 0) INSERT"
    and h5: "invoke demo_cfg INSERT sample_change \<noteq> None"
    by (simp_all add: connected_state listens_def invoke_def demo_cfg_handlers)
  note t = handler_error_isolated [OF h1 h2 h3, of INSERT sample_change]
  have a: "fst (inbound demo_cfg 0 UPDATE sample_change ?s) = None"
    using t by (simp add: demo_cfg_handlers)
  have b: "handled (snd (inbound demo_cfg 0 UPDATE sample_change ?s)) =
      [Called_onUpdate ''new row'' ''old row'' sample_change, Called_onError ''boom'']"
    using t by (simp add: demo_cfg_handlers label_def sample_change_def connected_state)
  have c: "connectionStatus (snd (inbound demo_cfg 0 UPDATE sample_change ?s)) = Connected"
    and d: "channelRef (snd (inbound demo_cfg 0 UPDATE sample_change ?s)) = Some 0"
    using t by (simp_all add: connected_state)
  from t have "listens (channels ?s ! 0) INSERT \<and> invoke demo_cfg INSERT sample_change \<noteq> None
      \<longrightarrow> label INSERT sample_change
        \<in> set (handled (snd (inbound demo_cfg 0 INSERT sample_change
            (snd (inbound demo_cfg 0 UPDATE sample_change ?s)))))"
    by blast
  with h4 h5 have e: "Called_onInsert ''new row'' sample_change
        \<in> set (handled (snd (inbound demo_cfg 0 INSERT sample_change
            (snd (inbound demo_cfg 0 UPDATE sample_change ?s)))))"
    by (simp add: label_def sample_change_def)
  show ?thesis
    by (intro conjI) (fact h1 h2 h3 h4 h5 a b c d e)+
qed

subsection \<open>C7: kinds outside the event mask\<close>

text \<open>
  C7. For a kind \<open>k\<close> that the mask does not select (the guard
  \<open>event === '*' || event === k || event.includes(k)\<close> is false), \<open>connect()\<close>
  registers no route, no channel of any reachable state listens for \<open>k\<close>, and a
  change of kind \<open>k\<close> arriving on any channel calls no handler, raises nothing and
  leaves the state as it was.
\<close>

theorem unmasked_kind_not_routed:
  assumes "reachable cfg st" and "\<not> wants (event cfg) k"
  shows "route cfg k = [] \<and>
         (c < length (channels st) \<longrightarrow> \<not> listens (channels st ! c) k) \<and>
         inbound cfg c k p st = (None, st)"
proof -
  have r: "routes_ok cfg st"
    using reachable_chan_inv [OF assms(1)] by (simp add: chan_inv_def)
  then have "c < length (channels st) \<Longrightarrow> \<not> listens (channels st ! c) k"
    using assms(2) by (auto simp: routes_ok_def)
  then show ?thesis
    using assms(2) by (auto simp: route_def inbound_def chan_def)
qed

text \<open>With \<open>event = 'INSERT'\<close> the channel has the one route for \<open>INSERT\<close>, and an
  \<open>UPDATE\<close> does not reach the registered \<open>onUpdate\<close>.\<close>

theorem unmasked_kind_not_routed_witness:
  "reachable insert_only_cfg (run insert_only_cfg connected_run (init Active)) \<and>
   \<not> wants (event insert_only_cfg) UPDATE \<and>
   onUpdate insert_only_cfg \<noteq> None \<and>
   bindings (channels (run insert_only_cfg connected_run (init Active)) ! 0) =
     [Postgres_changes INSERT ''public'' ''leads'' None, System, Broadcast ''heartbeat''] \<and>
   inbound insert_only_cfg 0 UPDATE sample_change (run insert_only_cfg connected_run (init Active)) =
     (None, run insert_only_cfg connected_run (init Active))"
proof -
  have r: "reachable insert_only_cfg (run insert_only_cfg connected_run (init Active))"
    by (rule reachable_run) (rule reachable_init)
  have w: "\<not> wants (event insert_only_cfg) UPDATE"
    by (simp add: insert_only_cfg_def wants_def kind_name_def)
  have b: "bindings (channels (run insert_only_cfg connected_run (init Active)) ! 0) =
     [Postgres_changes INSERT ''public'' ''leads'' None, System, Broadcast ''heartbeat'']"
    by (simp add: insert_only_state)
  have u: "onUpdate insert_only_cfg \<noteq> None"
    by (simp add: insert_only_cfg_def demo_cfg_def)
  show ?thesis
    using r w b u unmasked_kind_not_routed [OF r w, of 0 sample_change] by simp
qed

subsection \<open>C8: connectivity changes\<close>

text \<open>
  C8, as the code has it. The \<open>NetInfo\<close> listener records the new reachability.
  On offline it sets the status to \<open>network_disconnected\<close> and \<open>isConnected\<close> to
  false only when \<open>isConnected\<close> was true, and does nothing else: \<open>retryCount\<close>, the
  timers, the channels, \<open>channelRef\<close> and the transport calls are as before, so it
  neither increments the retry count nor arms a retry, and it neither stops the
  heartbeat nor closes the channel. On online with \<open>enabled\<close> true and
  \<open>isConnected\<close> false it calls \<open>connect()\<close>; otherwise it does nothing more.
\<close>

theorem on_netinfo_transitions:
  "on_netinfo cfg m rc tr False st =
     (if isConnected st
      then st\<lparr>isNetworkConnectedRef := False, connectionStatus := Network_disconnected,
              isConnected := False\<rparr>
      else st\<lparr>isNetworkConnectedRef := False\<rparr>) \<and>
   retryCount (on_netinfo cfg m rc tr False st) = retryCount st \<and>
   timers (on_netinfo cfg m rc tr False st) = timers st \<and>
   channels (on_netinfo cfg m rc tr False st) = channels st \<and>
   channelRef (on_netinfo cfg m rc tr False st) = channelRef st \<and>
   calls (on_netinfo cfg m rc tr False st) = calls st \<and>
   (enabled cfg \<and> \<not> isConnected st \<longrightarrow>
      on_netinfo cfg m rc tr True st =
        connect_call m cfg rc tr (st\<lparr>isNetworkConnectedRef := True\<rparr>)) \<and>
   (\<not> enabled cfg \<or> isConnected st \<longrightarrow>
      on_netinfo cfg m rc tr True st = st\<lparr>isNetworkConnectedRef := True\<rparr>)"
  by (simp add: on_netinfo_def Let_def)

text \<open>Offline on the connected hook, then online again: \<open>connect()\<close> replaces
  channel 0 by channel 1.\<close>

theorem on_netinfo_transitions_witness:
  "isConnected (run demo_cfg connected_run (init Active)) \<and>
   on_netinfo demo_cfg Completes 0 ok False (run demo_cfg connected_run (init Active)) =
     run demo_cfg offline_run (init Active) \<and>
   connectionStatus (run demo_cfg offline_run (init Active)) = Network_disconnected \<and>
   retryCount (run demo_cfg offline_run (init Active)) = 0 \<and>
   on_netinfo demo_cfg Completes 0 ok True (run demo_cfg connected_run (init Active)) =
     (run demo_cfg connected_run (init Active))\<lparr>isNetworkConnectedRef := True\<rparr> \<and>
   enabled demo_cfg \<and>
   \<not> isConnected (run demo_cfg offline_run (init Active)) \<and>
   connectionStatus
     (on_netinfo demo_cfg Completes 0 ok True (run demo_cfg offline_run (init Active))) =
     Connecting \<and>
   calls (on_netinfo demo_cfg Completes 0 ok True (run demo_cfg offline_run (init Active))) =
     [New_channel 0, Subscribe 0, Unsubscribe 0, New_channel 1, Subscribe 1]"
proof -
  let ?s = "run demo_cfg connected_run (init Active)"
  let ?o = "run demo_cfg offline_run (init Active)"
  note t = on_netinfo_transitions [of demo_cfg Completes 0 ok ?s]
  note t' = on_netinfo_transitions [of demo_cfg Completes 0 ok ?o]
  have h: "isConnected ?s" "enabled demo_cfg" "\<not> isConnected ?o"
    "connectionStatus ?o = Network_disconnected" "retryCount ?o = 0"
    by (simp_all add: connected_state offline_state)
  have a: "on_netinfo demo_cfg Completes 0 ok False ?s = ?o"
    using t h(1) unfolding connected_state offline_state by simp
  have b: "on_netinfo demo_cfg Completes 0 ok True ?s = ?s\<lparr>isNetworkConnectedRef := True\<rparr>"
    using t h(1) by simp
  have "on_netinfo demo_cfg Completes 0 ok True ?o =
      connect_call Completes demo_cfg 0 ok (?o\<lparr>isNetworkConnectedRef := True\<rparr>)"
    using t' h(2,3) by blast
  then have c: "connectionStatus (on_netinfo demo_cfg Completes 0 ok True ?o) = Connecting"
    and d: "calls (on_netinfo demo_cfg Completes 0 ok True ?o) =
      [New_channel 0, Subscribe 0, Unsubscribe 0, New_channel 1, Subscribe 1]"
    unfolding offline_state
    by (simp_all add: connect_call_def connect_def connect_unsubscribed_def connect_opening_def
        connect_open_def connect_assign_def unsubscribe_def upd_chan_def ok_def Let_def)
  show ?thesis
    by (intro conjI) (fact h a b c d)+
qed

text \<open>The claim as stated fails. After offline on the connected hook the heartbeat
  timer is still pending and channel 0 is still live. From status \<open>retrying\<close> the
  status stays \<open>retrying\<close> and the retry timer stays pending; when it fires while
  offline, \<open>retryCount\<close> is incremented.\<close>

theorem offline_keeps_heartbeat_counterexample:
  "connectionStatus (run demo_cfg connected_run (init Active)) = Connected \<and>
   connectionStatus (on_netinfo demo_cfg Completes 0 ok False
      (run demo_cfg connected_run (init Active))) = Network_disconnected \<and>
   pending Interval (on_netinfo demo_cfg Completes 0 ok False
      (run demo_cfg connected_run (init Active))) =
     [\<lparr>tm_id = 1, tm_kind = Interval, tm_delay = Finite 30000\<rparr>] \<and>
   live_handles (on_netinfo demo_cfg Completes 0 ok False
      (run demo_cfg connected_run (init Active))) = [0] \<and>
   connectionStatus (on_netinfo demo_cfg Completes 0 ok False
      (run demo_cfg retrying_run (init Active))) = Retrying \<and>
   pending Oneshot (on_netinfo demo_cfg Completes 0 ok False
      (run demo_cfg retrying_run (init Active))) =
     [\<lparr>tm_id = 1, tm_kind = Oneshot, tm_delay = Finite 1000\<rparr>] \<and>
   retryCount (step demo_cfg (Retry_fires 1 Completes 0 ok)
      (on_netinfo demo_cfg Completes 0 ok False (run demo_cfg retrying_run (init Active)))) = 1"
  unfolding connected_state retrying_state
  by (simp add: on_netinfo_def pending_def live_handles_def live_def active_def retry_callback_def
      connect_call_def connect_def clearTimer_def)

subsection \<open>C9: the heartbeat\<close>

text \<open>
  C9 fails on the code in its last part; the parts on the single interval, on
  the tick and on \<open>stopHeartbeat\<close> hold (\<open>heartbeat_facts\<close>). \<open>disconnect()\<close> stops
  the heartbeat and unsubscribes the channel that \<open>channelRef\<close> holds. A channel
  that a suspended \<open>connect()\<close> has opened is not in \<open>channelRef\<close> yet, and nothing
  cancels the \<open>connect()\<close>. With the first \<open>connect()\<close> suspended at its
  \<open>subscribe\<close>, \<open>disconnect()\<close> completes with status \<open>disconnected\<close>, no timer
  pending and no heartbeat sent so far. Then \<open>connect()\<close> is resumed, the transport
  joins the channel, the channel reports \<open>SUBSCRIBED\<close>, and thirty seconds later the
  interval fires: the status is \<open>connected\<close>, a heartbeat interval is pending and a
  heartbeat has been sent, with no call of \<open>connect()\<close> made after the
  \<open>disconnect()\<close>. The same holds when the hook is unmounted in place of the call
  of \<open>disconnect()\<close>: the unmounted hook goes on sending a heartbeat every thirty
  seconds.
\<close>

theorem heartbeat_after_disconnect:
  "connectionStatus (run demo_cfg opening_run (init Active)) = Connecting \<and>
   connectionStatus (disconnect ok (run demo_cfg opening_run (init Active))) = Disconnected \<and>
   timers (disconnect ok (run demo_cfg opening_run (init Active))) = [] \<and>
   heartbeats (disconnect ok (run demo_cfg opening_run (init Active))) = [] \<and>
   connectionStatus
     (run demo_cfg
        [Connect_subscribed 0, Transport_state 0 Joined, Subscribe_status SUBSCRIBED None 0,
         Heartbeat_fires 1 30000]
        (disconnect ok (run demo_cfg opening_run (init Active)))) = Connected \<and>
   pending Interval
     (run demo_cfg
        [Connect_subscribed 0, Transport_state 0 Joined, Subscribe_status SUBSCRIBED None 0,
         Heartbeat_fires 1 30000]
        (disconnect ok (run demo_cfg opening_run (init Active)))) =
     [\<lparr>tm_id = 1, tm_kind = Interval, tm_delay = Finite 30000\<rparr>] \<and>
   heartbeats
     (run demo_cfg
        [Connect_subscribed 0, Transport_state 0 Joined, Subscribe_status SUBSCRIBED None 0,
         Heartbeat_fires 1 30000]
        (disconnect ok (run demo_cfg opening_run (init Active)))) =
     [Send 0 ''heartbeat'' (Timestamp 30000)] \<and>
   lastHeartbeat
     (run demo_cfg
        [Connect_subscribed 0, Transport_state 0 Joined, Subscribe_status SUBSCRIBED None 0,
         Heartbeat_fires 1 30000]
        (disconnect ok (run demo_cfg opening_run (init Active)))) = Some 30000 \<and>
   timers (unmount Completes ok (run demo_cfg opening_run (init Active))) = [] \<and>
   heartbeats
     (run demo_cfg
        [Connect_subscribed 0, Transport_state 0 Joined, Subscribe_status SUBSCRIBED None 0,
         Heartbeat_fires 1 30000, Heartbeat_fires 1 60000]
        (unmount Completes ok (run demo_cfg opening_run (init Active)))) =
     [Send 0 ''heartbeat'' (Timestamp 30000), Send 0 ''heartbeat'' (Timestamp 60000)]"
  unfolding opening_state
  by (simp add: model_defs heartbeats_def)

subsection \<open>C10: untrackPresence\<close>

text \<open>
  C10, as the code has it. \<open>untrackPresence\<close> never throws; when no channel is
  held it returns and leaves the state as it was, without a transport call. Its
  guard reads \<open>channelRef\<close> only: a channel that is held is sent \<open>untrack()\<close>
  whatever the status.
\<close>

theorem untrackPresence_never_throws:
  "fst (untrackPresence st) = None \<and>
   (channelRef st = None \<longrightarrow> untrackPresence st = (None, st))"
  by (simp add: untrackPresence_def split: option.splits)

theorem untrackPresence_never_throws_witness:
  "channelRef (init Active) = None \<and> untrackPresence (init Active) = (None, init Active)"
  using untrackPresence_never_throws [of "init Active"] by (simp add: init_def)

text \<open>The claim as stated fails for the states it includes by their status: after
  a channel error the status is \<open>retrying\<close>, the channel is still held, and
  \<open>untrackPresence\<close> makes a transport call.\<close>

theorem untrackPresence_held_counterexample:
  "connectionStatus (run demo_cfg retrying_run (init Active)) = Retrying \<and>
   untrackPresence (run demo_cfg retrying_run (init Active)) =
     (None, (run demo_cfg retrying_run (init Active))
        \<lparr>calls := calls (run demo_cfg retrying_run (init Active)) @ [Untrack 0]\<rparr>)"
  unfolding retrying_state by (simp add: untrackPresence_def)

end
